theory Spec2Isabelle
  imports Main "HOL-Library.Word" "HOL-Library.Sublist"
begin

unbundle bit_operations_syntax

section \<open>Data model of the ALSA backend (alsa.cpp)\<close>

text \<open>
  The backend talks to three outside parties: the allocator, the ALSA library and the
  kernel (inotify, poll, pipes). Their answers are inputs of the model; everything the
  backend computes from those answers is a HOL function that follows the C++ text of
  \<^verbatim>\<open>alsa.cpp\<close> branch by branch.
\<close>

datatype SoundIoError =
  SoundIoErrorNoMem | SoundIoErrorSystemResources | SoundIoErrorOpeningDevice

datatype SoundIoDevicePurpose = SoundIoDevicePurposeOutput | SoundIoDevicePurposeInput

datatype snd_pcm_stream_t = SND_PCM_STREAM_PLAYBACK | SND_PCM_STREAM_CAPTURE

definition stream_types :: "snd_pcm_stream_t list" where
  "stream_types = [SND_PCM_STREAM_PLAYBACK, SND_PCM_STREAM_CAPTURE]"

definition MAX_SAMPLE_RATE :: "32 word" where
  "MAX_SAMPLE_RATE = 48000"

datatype SoundIoChannelId =
  SoundIoChannelIdInvalid
  | SoundIoChannelIdFrontLeft | SoundIoChannelIdFrontRight | SoundIoChannelIdFrontCenter
  | SoundIoChannelIdLfe
  | SoundIoChannelIdBackLeft | SoundIoChannelIdBackRight
  | SoundIoChannelIdFrontLeftCenter | SoundIoChannelIdFrontRightCenter
  | SoundIoChannelIdBackCenter
  | SoundIoChannelIdSideLeft | SoundIoChannelIdSideRight
  | SoundIoChannelIdTopCenter
  | SoundIoChannelIdTopFrontLeft | SoundIoChannelIdTopFrontCenter | SoundIoChannelIdTopFrontRight
  | SoundIoChannelIdTopBackLeft | SoundIoChannelIdTopBackCenter | SoundIoChannelIdTopBackRight
  | SoundIoChannelIdBackLeftCenter | SoundIoChannelIdBackRightCenter
  | SoundIoChannelIdFrontLeftWide | SoundIoChannelIdFrontRightWide
  | SoundIoChannelIdFrontLeftHigh | SoundIoChannelIdFrontCenterHigh | SoundIoChannelIdFrontRightHigh
  | SoundIoChannelIdTopFrontLeftCenter | SoundIoChannelIdTopFrontRightCenter
  | SoundIoChannelIdTopSideLeft | SoundIoChannelIdTopSideRight
  | SoundIoChannelIdLeftLfe | SoundIoChannelIdRightLfe
  | SoundIoChannelIdBottomCenter | SoundIoChannelIdBottomLeftCenter
  | SoundIoChannelIdBottomRightCenter

record SoundIoChannelLayout =
  layout_name :: "string option"
  channel_count :: int
  channels :: "SoundIoChannelId list"

record SoundIoDevice =
  ref_count :: int
  name :: string
  description :: string
  is_raw :: bool
  purpose :: SoundIoDevicePurpose
  sample_rate_min :: "32 word"
  sample_rate_max :: "32 word"
  sample_rate_default :: "32 word"
  channel_layout :: SoundIoChannelLayout

record SoundIoDevicesInfo =
  output_devices :: "SoundIoDevice list"
  input_devices :: "SoundIoDevice list"
  default_output_index :: int
  default_input_index :: int

text \<open>
  \<^verbatim>\<open>struct SoundIoAlsa\<close>, reduced to the fields the discovery core reads and writes.
  \<open>cond_signals\<close> counts the calls of \<^verbatim>\<open>soundio_os_cond_signal\<close>.
\<close>

record SoundIoAlsa =
  ready_devices_info :: "SoundIoDevicesInfo option"
  have_devices_flag :: bool
  cond_signals :: nat

subsection \<open>ALSA channel maps\<close>

text \<open>
  \<^verbatim>\<open>snd_pcm_chmap_t\<close> is a channel count followed by that many positions;
  \<^verbatim>\<open>snd_pcm_chmap_query_t\<close> wraps one with a map type. A well-formed map has
  \<open>length (pos m) = unat (chmap_channels m)\<close>.
\<close>

record snd_pcm_chmap_t =
  chmap_channels :: "32 word"
  pos :: "32 word list"

record snd_pcm_chmap_query_t =
  query_type :: nat
  query_map :: snd_pcm_chmap_t

text \<open>
  The positions of \<^verbatim>\<open>enum snd_pcm_chmap_position\<close> are numbered from
  \<^verbatim>\<open>SND_CHMAP_UNKNOWN = 0\<close> to \<^verbatim>\<open>SND_CHMAP_BRC = 36\<close> in the order of the
  \<^verbatim>\<open>switch\<close> below (the ALSA header \<^verbatim>\<open>pcm.h\<close>).
\<close>

definition from_alsa_chmap_pos :: "32 word \<Rightarrow> SoundIoChannelId" where
  "from_alsa_chmap_pos p =
    (if p = 0 then SoundIoChannelIdInvalid
     else if p = 1 then SoundIoChannelIdInvalid
     else if p = 2 then SoundIoChannelIdFrontCenter
     else if p = 3 then SoundIoChannelIdFrontLeft
     else if p = 4 then SoundIoChannelIdFrontRight
     else if p = 5 then SoundIoChannelIdBackLeft
     else if p = 6 then SoundIoChannelIdBackRight
     else if p = 7 then SoundIoChannelIdFrontCenter
     else if p = 8 then SoundIoChannelIdLfe
     else if p = 9 then SoundIoChannelIdSideLeft
     else if p = 10 then SoundIoChannelIdSideRight
     else if p = 11 then SoundIoChannelIdBackCenter
     else if p = 12 then SoundIoChannelIdFrontLeftCenter
     else if p = 13 then SoundIoChannelIdFrontRightCenter
     else if p = 14 then SoundIoChannelIdBackLeftCenter
     else if p = 15 then SoundIoChannelIdBackRightCenter
     else if p = 16 then SoundIoChannelIdFrontLeftWide
     else if p = 17 then SoundIoChannelIdFrontRightWide
     else if p = 18 then SoundIoChannelIdFrontLeftHigh
     else if p = 19 then SoundIoChannelIdFrontCenterHigh
     else if p = 20 then SoundIoChannelIdFrontRightHigh
     else if p = 21 then SoundIoChannelIdTopCenter
     else if p = 22 then SoundIoChannelIdTopFrontLeft
     else if p = 23 then SoundIoChannelIdTopFrontRight
     else if p = 24 then SoundIoChannelIdTopFrontCenter
     else if p = 25 then SoundIoChannelIdTopBackLeft
     else if p = 26 then SoundIoChannelIdTopBackRight
     else if p = 27 then SoundIoChannelIdTopBackCenter
     else if p = 28 then SoundIoChannelIdTopFrontLeftCenter
     else if p = 29 then SoundIoChannelIdTopFrontRightCenter
     else if p = 30 then SoundIoChannelIdTopSideLeft
     else if p = 31 then SoundIoChannelIdTopSideRight
     else if p = 32 then SoundIoChannelIdLeftLfe
     else if p = 33 then SoundIoChannelIdRightLfe
     else if p = 34 then SoundIoChannelIdBottomCenter
     else if p = 35 then SoundIoChannelIdBottomLeftCenter
     else if p = 36 then SoundIoChannelIdBottomRightCenter
     else SoundIoChannelIdInvalid)"

text \<open>
  Two things \<^verbatim>\<open>get_channel_layout\<close> uses are declared outside \<^verbatim>\<open>alsa.cpp\<close>: the
  constant \<^verbatim>\<open>SOUNDIO_MAX_CHANNELS\<close> and the function
  \<^verbatim>\<open>soundio_channel_layout_detect_builtin\<close>. Both are parameters of the model.
\<close>

record layout_params =
  SOUNDIO_MAX_CHANNELS :: "32 word"
  soundio_channel_layout_detect_builtin :: "SoundIoChannelLayout \<Rightarrow> SoundIoChannelLayout"

text \<open>
  \<^verbatim>\<open>get_channel_layout\<close>: the first \<open>channel_count\<close> entries of the fixed array
  \<^verbatim>\<open>channels\<close> are overwritten, the others keep their old contents. The count is
  the unsigned minimum of the two numbers, stored in an \<^verbatim>\<open>int\<close>
  (\<^verbatim>\<open>SOUNDIO_MAX_CHANNELS\<close> being small, the conversion keeps the value).
\<close>

definition get_channel_layout ::
  "layout_params \<Rightarrow> SoundIoDevice \<Rightarrow> snd_pcm_chmap_t \<Rightarrow> SoundIoDevice" where
  "get_channel_layout lp device chmap =
    (let n = unat (min (SOUNDIO_MAX_CHANNELS lp) (chmap_channels chmap));
         old = channel_layout device;
         layout = old\<lparr>channel_count := int n, layout_name := None,
                     channels := map from_alsa_chmap_pos (take n (pos chmap))
                                 @ drop n (channels old)\<rparr>
     in device\<lparr>channel_layout := soundio_channel_layout_detect_builtin lp layout\<rparr>)"

text \<open>
  The loop of \<^verbatim>\<open>handle_channel_maps\<close> over the NULL-terminated array \<^verbatim>\<open>maps\<close>;
  \<open>best\<close> is the pointer \<^verbatim>\<open>best\<close>, \<open>None\<close> while it is \<^verbatim>\<open>nullptr\<close>.
\<close>

fun best_chmap ::
  "snd_pcm_chmap_query_t list \<Rightarrow> snd_pcm_chmap_t option \<Rightarrow> snd_pcm_chmap_t option" where
  "best_chmap [] best = best"
| "best_chmap (v # vs) best =
    best_chmap vs
      (case best of
         None \<Rightarrow> Some (query_map v)
       | Some b \<Rightarrow>
           if chmap_channels (query_map v) > chmap_channels b then Some (query_map v)
           else Some b)"

text \<open>
  \<^verbatim>\<open>handle_channel_maps\<close>. \<open>maps = None\<close> is the null pointer. For an array with no entry
  the code passes \<^verbatim>\<open>best = nullptr\<close> to \<^verbatim>\<open>get_channel_layout\<close>, which dereferences
  it: the result \<open>None\<close> stands for that undefined behaviour.
\<close>

definition handle_channel_maps ::
  "layout_params \<Rightarrow> SoundIoDevice \<Rightarrow> snd_pcm_chmap_query_t list option
    \<Rightarrow> SoundIoDevice option" where
  "handle_channel_maps lp device maps =
    (case maps of
       None \<Rightarrow> Some device
     | Some vs \<Rightarrow>
         (case best_chmap vs None of
            None \<Rightarrow> None
          | Some best \<Rightarrow> Some (get_channel_layout lp device best)))"

subsection \<open>Probing one device\<close>

text \<open>
  What ALSA answers for one PCM (a device name and a stream direction): whether each
  call of \<^verbatim>\<open>probe_device\<close> succeeds, the rate limits with their direction flags
  (\<open>None\<close>: the query failed), the current channel map and the queried maps.
\<close>

record pcm_answers =
  snd_pcm_open_ok :: bool
  snd_pcm_hw_params_any_ok :: bool
  snd_pcm_hw_params_set_rate_resample_ok :: bool
  snd_pcm_hw_params_set_access_ok :: bool
  snd_pcm_hw_params_set_channels_last_ok :: bool
  snd_pcm_hw_params_get_rate_max :: "(32 word \<times> int) option"
  snd_pcm_hw_params_get_rate_min :: "(32 word \<times> int) option"
  snd_pcm_get_chmap :: "snd_pcm_chmap_t option"
  snd_pcm_query_chmaps :: "snd_pcm_chmap_query_t list option"

text \<open>
  \<^verbatim>\<open>probe_device\<close> returns its error code (\<open>None\<close> for 0) and the device as it left
  it; the outer \<open>None\<close> is the null dereference of \<open>handle_channel_maps\<close>.
\<close>

definition probe_device ::
  "layout_params \<Rightarrow> pcm_answers \<Rightarrow> SoundIoDevice \<Rightarrow> snd_pcm_chmap_query_t list option
    \<Rightarrow> (SoundIoError option \<times> SoundIoDevice) option" where
  "probe_device lp a device maps =
    (if \<not> snd_pcm_open_ok a then
       (case handle_channel_maps lp device maps of
          None \<Rightarrow> None
        | Some d \<Rightarrow> Some (Some SoundIoErrorOpeningDevice, d))
     else if \<not> snd_pcm_hw_params_any_ok a then Some (Some SoundIoErrorOpeningDevice, device)
     else if \<not> snd_pcm_hw_params_set_rate_resample_ok a then
       Some (Some SoundIoErrorOpeningDevice, device)
     else if \<not> snd_pcm_hw_params_set_access_ok a then
       Some (Some SoundIoErrorOpeningDevice, device)
     else if \<not> snd_pcm_hw_params_set_channels_last_ok a then
       Some (Some SoundIoErrorOpeningDevice, device)
     else
       (case snd_pcm_hw_params_get_rate_max a of
          None \<Rightarrow> Some (Some SoundIoErrorOpeningDevice, device)
        | Some (max_rate, max_dir) \<Rightarrow>
            let max_sample_rate = (if max_dir < 0 then max_rate - 1 else max_rate) in
            (case snd_pcm_hw_params_get_rate_min a of
               None \<Rightarrow> Some (Some SoundIoErrorOpeningDevice, device)
             | Some (min_rate, min_dir) \<Rightarrow>
                 let min_sample_rate = (if min_dir > 0 then min_rate + 1 else min_rate);
                     device1 = (case snd_pcm_get_chmap a of
                                  Some chmap \<Rightarrow> get_channel_layout lp device chmap
                                | None \<Rightarrow> device);
                     maps1 = (case snd_pcm_get_chmap a of
                                Some chmap \<Rightarrow> maps
                              | None \<Rightarrow>
                                  (case maps of
                                     None \<Rightarrow> snd_pcm_query_chmaps a
                                   | Some vs \<Rightarrow> maps))
                 in
                 (case handle_channel_maps lp device1 maps1 of
                    None \<Rightarrow> None
                  | Some device2 \<Rightarrow>
                      let device3 = device2\<lparr>sample_rate_min := min_sample_rate\<rparr>;
                          device4 = device3\<lparr>sample_rate_min := max_sample_rate\<rparr>;
                          device5 = device4\<lparr>sample_rate_default :=
                            (if min_sample_rate \<le> MAX_SAMPLE_RATE
                                \<and> MAX_SAMPLE_RATE \<le> max_sample_rate
                             then MAX_SAMPLE_RATE else max_sample_rate)\<rparr>
                      in Some (None, device5)))))"

section \<open>The Enumeration Pass (refresh_devices)\<close>

subsection \<open>String helpers\<close>

text \<open>
  \<^verbatim>\<open>str_partition_on_char\<close> cuts the string at the first occurrence of \<open>c\<close>: the first
  component is what the argument holds afterwards, the second the returned pointer
  (\<open>None\<close> for \<^verbatim>\<open>nullptr\<close>).
\<close>

fun str_partition_on_char :: "string \<Rightarrow> char \<Rightarrow> string \<times> string option" where
  "str_partition_on_char [] c = ([], None)"
| "str_partition_on_char (x # xs) c =
    (if x = c then ([], Some xs)
     else (case str_partition_on_char xs c of (a, r) \<Rightarrow> (x # a, r)))"

text \<open>\<^verbatim>\<open>strncmp(big_str, prefix, strlen(prefix)) == 0\<close>.\<close>

definition str_has_prefix :: "string \<Rightarrow> string \<Rightarrow> bool" where
  "str_has_prefix big_str pre = (take (length pre) big_str = pre)"

text \<open>\<^verbatim>\<open>strstr(haystack, needle) != NULL\<close>.\<close>

fun strstr :: "string \<Rightarrow> string \<Rightarrow> bool" where
  "strstr [] needle = (needle = [])"
| "strstr (c # cs) needle = (str_has_prefix (c # cs) needle \<or> strstr cs needle)"

text \<open>The conversion \<^verbatim>\<open>%d\<close> of \<^verbatim>\<open>sprintf\<close> for an index that is not negative.\<close>

fun decimal :: "nat \<Rightarrow> string" where
  "decimal n =
    (if n < 10 then [''0123456789'' ! n]
     else decimal (n div 10) @ [''0123456789'' ! (n mod 10)])"

declare decimal.simps [simp del]

subsection \<open>The answers of the allocator and of ALSA\<close>

text \<open>
  One entry of the hint registry: what \<^verbatim>\<open>snd_device_name_get_hint\<close> returns for the
  keys NAME, DESC and IOID, \<open>None\<close> being the null pointer it returns for a key the
  entry does not have.
\<close>

record device_hint =
  NAME :: "string option"
  DESC :: "string option"
  IOID :: "string option"

datatype ctl_open_answer = Ctl_Opened | Ctl_ENOENT | Ctl_Error

datatype pcm_info_answer = Pcm_Info string | Pcm_ENOENT | Pcm_Error

record pcm_device =
  device_index :: nat
  snd_ctl_pcm_info :: "snd_pcm_stream_t \<Rightarrow> pcm_info_answer"
  snd_pcm_query_chmaps_from_hw :: "snd_pcm_stream_t \<Rightarrow> snd_pcm_chmap_query_t list option"

text \<open>
  What the successive calls of \<^verbatim>\<open>snd_ctl_pcm_next_device\<close> on one card answer: an
  error, the end (\<^verbatim>\<open>device_index < 0\<close>), or the next device and the rest.
\<close>

datatype device_walk = Device_Next_Fails | Device_End | Device_Next pcm_device device_walk

record sound_card =
  card_index :: nat
  snd_ctl_open :: ctl_open_answer
  snd_ctl_card_info :: "string option"
  snd_ctl_pcm_next_device :: device_walk

text \<open>The same for the successive calls of \<^verbatim>\<open>snd_card_next\<close>.\<close>

datatype card_walk = Card_Next_Fails | Card_End | Card_Next sound_card card_walk

text \<open>
  Everything one pass asks of the outside. \<open>alloc_ok n\<close> tells whether the \<open>n\<close>-th
  allocating call of the pass succeeds. \<open>blank_device\<close> and \<open>blank_devices_info\<close> are
  the objects \<^verbatim>\<open>create<T>()\<close> returns (the template is not in \<^verbatim>\<open>alsa.cpp\<close>);
  \<^verbatim>\<open>soundio_error_string\<close> is declared outside \<^verbatim>\<open>alsa.cpp\<close> too.
\<close>

record alsa_world =
  alloc_ok :: "nat \<Rightarrow> bool"
  snd_device_name_hint :: "device_hint list option"
  pcm :: "string \<Rightarrow> snd_pcm_stream_t \<Rightarrow> pcm_answers"
  snd_card_next :: card_walk
  blank_device :: SoundIoDevice
  blank_devices_info :: SoundIoDevicesInfo
  params :: layout_params
  soundio_error_string :: "SoundIoError \<Rightarrow> string"

subsection \<open>Outcomes\<close>

text \<open>
  How a failing \<^verbatim>\<open>return\<close> of \<^verbatim>\<open>refresh_devices\<close> leaves the \<^verbatim>\<open>devices_info\<close> it was
  building: never allocated, released by \<^verbatim>\<open>destroy(devices_info)\<close>, or returned from
  without that call.
\<close>

datatype cleanup = Info_Not_Allocated | Info_Destroyed | Info_Not_Destroyed

text \<open>
  \<open>Panic\<close> is \<^verbatim>\<open>soundio_panic\<close> (the process aborts); \<open>Null_Dereference\<close> is a read
  through a null pointer: by \<open>handle_channel_maps\<close> on an empty array, by
  \<^verbatim>\<open>strcmp\<close> on a hint without NAME, by \<^verbatim>\<open>str_partition_on_char\<close> on a hint without
  DESC.
\<close>

datatype 'a outcome = Ok 'a | Failed SoundIoError cleanup | Panic string | Null_Dereference

fun and_then :: "'a outcome \<Rightarrow> ('a \<Rightarrow> 'b outcome) \<Rightarrow> 'b outcome" where
  "and_then (Ok x) f = f x"
| "and_then (Failed e c) f = Failed e c"
| "and_then (Panic m) f = Panic m"
| "and_then Null_Dereference f = Null_Dereference"

text \<open>
  The state of a pass: the \<^verbatim>\<open>devices_info\<close> under construction and the number of
  allocating calls made so far.
\<close>

record pass_state =
  devices_info :: SoundIoDevicesInfo
  allocations :: nat

subsection \<open>Hinted devices\<close>

definition hint_is_excluded :: "string \<Rightarrow> bool" where
  "hint_is_excluded nm =
    (nm = ''null'' \<or>
     str_has_prefix nm ''sysdefault:'' \<or>
     str_has_prefix nm ''front:'' \<or>
     str_has_prefix nm ''surround21:'' \<or>
     str_has_prefix nm ''surround40:'' \<or>
     str_has_prefix nm ''surround41:'' \<or>
     str_has_prefix nm ''surround50:'' \<or>
     str_has_prefix nm ''surround51:'' \<or>
     str_has_prefix nm ''surround71:'')"

text \<open>The test that skips a capture stream (lines 310 to 314).\<close>

definition capture_is_suppressed :: "string option \<Rightarrow> bool" where
  "capture_is_suppressed descr1 =
    (case descr1 of
       None \<Rightarrow> False
     | Some d1 \<Rightarrow> strstr d1 ''Output'' \<or> strstr d1 ''output'')"

text \<open>\<^verbatim>\<open>device_list->append(device)\<close> on the list the stream selects.\<close>

definition append_device ::
  "snd_pcm_stream_t \<Rightarrow> SoundIoDevice \<Rightarrow> SoundIoDevicesInfo \<Rightarrow> SoundIoDevicesInfo" where
  "append_device stream device info =
    (case stream of
       SND_PCM_STREAM_PLAYBACK \<Rightarrow> info\<lparr>output_devices := output_devices info @ [device]\<rparr>
     | SND_PCM_STREAM_CAPTURE \<Rightarrow> info\<lparr>input_devices := input_devices info @ [device]\<rparr>)"

text \<open>
  One turn of the inner loop over \<open>stream_types\<close> for a hint (lines 306 to 365). The
  allocating calls are, in order: \<^verbatim>\<open>create<SoundIoDevice>\<close>, \<^verbatim>\<open>strdup\<close> of the name, the
  description, and \<^verbatim>\<open>append\<close>.
\<close>

definition hint_stream ::
  "alsa_world \<Rightarrow> string \<Rightarrow> string \<Rightarrow> string option \<Rightarrow> bool \<Rightarrow> bool
    \<Rightarrow> snd_pcm_stream_t \<Rightarrow> pass_state \<Rightarrow> pass_state outcome" where
  "hint_stream w nm descr descr1 is_playback is_capture stream st =
    (if stream = SND_PCM_STREAM_PLAYBACK \<and> \<not> is_playback then Ok st
     else if stream = SND_PCM_STREAM_CAPTURE \<and> \<not> is_capture then Ok st
     else if stream = SND_PCM_STREAM_CAPTURE \<and> capture_is_suppressed descr1 then Ok st
     else if \<not> alloc_ok w (allocations st) then Failed SoundIoErrorNoMem Info_Destroyed
     else
       let device = (blank_device w)\<lparr>ref_count := 1, name := nm,
                       description := (case descr1 of
                                         Some d1 \<Rightarrow> descr @ '': '' @ d1
                                       | None \<Rightarrow> descr),
                       is_raw := False\<rparr>
       in
       if \<not> alloc_ok w (allocations st + 1) \<or> \<not> alloc_ok w (allocations st + 2)
       then Failed SoundIoErrorNoMem Info_Destroyed
       else
         let info = devices_info st;
             device1 = (case stream of
                          SND_PCM_STREAM_PLAYBACK \<Rightarrow>
                            device\<lparr>purpose := SoundIoDevicePurposeOutput\<rparr>
                        | SND_PCM_STREAM_CAPTURE \<Rightarrow>
                            device\<lparr>purpose := SoundIoDevicePurposeInput\<rparr>);
             info1 = (case stream of
                        SND_PCM_STREAM_PLAYBACK \<Rightarrow>
                          if str_has_prefix nm ''default:''
                          then info\<lparr>default_output_index := int (length (output_devices info))\<rparr>
                          else info
                      | SND_PCM_STREAM_CAPTURE \<Rightarrow>
                          if str_has_prefix nm ''default:''
                          then info\<lparr>default_input_index := int (length (input_devices info))\<rparr>
                          else info)
         in
         (case probe_device (params w) (pcm w nm stream) device1 None of
            None \<Rightarrow> Null_Dereference
          | Some (err, device2) \<Rightarrow>
              if \<not> alloc_ok w (allocations st + 3)
              then Failed SoundIoErrorNoMem Info_Destroyed
              else Ok \<lparr>devices_info = append_device stream device2 info1,
                       allocations = allocations st + 4\<rparr>))"

fun hint_streams ::
  "alsa_world \<Rightarrow> string \<Rightarrow> string \<Rightarrow> string option \<Rightarrow> bool \<Rightarrow> bool
    \<Rightarrow> snd_pcm_stream_t list \<Rightarrow> pass_state \<Rightarrow> pass_state outcome" where
  "hint_streams w nm descr descr1 is_playback is_capture [] st = Ok st"
| "hint_streams w nm descr descr1 is_playback is_capture (stream # rest) st =
    and_then (hint_stream w nm descr descr1 is_playback is_capture stream st)
      (hint_streams w nm descr descr1 is_playback is_capture rest)"

text \<open>
  The body of the loop over the hints (lines 262 to 369). The name goes to \<^verbatim>\<open>strcmp\<close>
  (line 266) and the description to \<^verbatim>\<open>str_partition_on_char\<close> (line 285) unchecked,
  the latter before IOID is read (line 287).
\<close>

definition refresh_hint :: "alsa_world \<Rightarrow> device_hint \<Rightarrow> pass_state \<Rightarrow> pass_state outcome" where
  "refresh_hint w h st =
    (case NAME h of
       None \<Rightarrow> Null_Dereference
     | Some nm \<Rightarrow>
         if hint_is_excluded nm then Ok st
         else
           (case DESC h of
              None \<Rightarrow> Null_Dereference
            | Some d \<Rightarrow>
                (case str_partition_on_char d (CHR 0x0A) of
                   (descr, descr1) \<Rightarrow>
                     (case IOID h of
                        Some io \<Rightarrow>
                          if io = ''Input''
                          then hint_streams w nm descr descr1 False True stream_types st
                          else if io = ''Output''
                          then hint_streams w nm descr descr1 True False stream_types st
                          else Panic ''invalid io hint value''
                      | None \<Rightarrow>
                          hint_streams w nm descr descr1 True True stream_types st))))"

fun refresh_hints :: "alsa_world \<Rightarrow> device_hint list \<Rightarrow> pass_state \<Rightarrow> pass_state outcome" where
  "refresh_hints w [] st = Ok st"
| "refresh_hints w (h # hs) st = and_then (refresh_hint w h st) (refresh_hints w hs)"

subsection \<open>Raw hardware devices\<close>

text \<open>One turn of the loop over \<open>stream_types\<close> for a device of a card (lines 418 to 471).\<close>

definition raw_stream ::
  "alsa_world \<Rightarrow> sound_card \<Rightarrow> string \<Rightarrow> pcm_device \<Rightarrow> snd_pcm_stream_t \<Rightarrow> pass_state
    \<Rightarrow> pass_state outcome" where
  "raw_stream w c card_name d stream st =
    (case snd_ctl_pcm_info d stream of
       Pcm_ENOENT \<Rightarrow> Ok st
     | Pcm_Error \<Rightarrow> Failed SoundIoErrorSystemResources Info_Destroyed
     | Pcm_Info device_name \<Rightarrow>
         if \<not> alloc_ok w (allocations st) then Failed SoundIoErrorNoMem Info_Destroyed
         else
           let device = (blank_device w)\<lparr>ref_count := 1,
                           name := ''hw:'' @ decimal (card_index c) @ '','' @
                                   decimal (device_index d),
                           description := card_name @ '' '' @ device_name,
                           is_raw := True\<rparr>
           in
           if \<not> alloc_ok w (allocations st + 1) \<or> \<not> alloc_ok w (allocations st + 2)
           then Failed SoundIoErrorNoMem Info_Destroyed
           else
             let device1 = (case stream of
                              SND_PCM_STREAM_PLAYBACK \<Rightarrow>
                                device\<lparr>purpose := SoundIoDevicePurposeOutput\<rparr>
                            | SND_PCM_STREAM_CAPTURE \<Rightarrow>
                                device\<lparr>purpose := SoundIoDevicePurposeInput\<rparr>)
             in
             (case probe_device (params w) (pcm w (name device1) stream) device1
                     (snd_pcm_query_chmaps_from_hw d stream) of
                None \<Rightarrow> Null_Dereference
              | Some (err, device2) \<Rightarrow>
                  if \<not> alloc_ok w (allocations st + 3)
                  then Failed SoundIoErrorNoMem Info_Destroyed
                  else Ok \<lparr>devices_info = append_device stream device2 (devices_info st),
                           allocations = allocations st + 4\<rparr>))"

fun raw_streams ::
  "alsa_world \<Rightarrow> sound_card \<Rightarrow> string \<Rightarrow> pcm_device \<Rightarrow> snd_pcm_stream_t list \<Rightarrow> pass_state
    \<Rightarrow> pass_state outcome" where
  "raw_streams w c card_name d [] st = Ok st"
| "raw_streams w c card_name d (stream # rest) st =
    and_then (raw_stream w c card_name d stream st) (raw_streams w c card_name d rest)"

text \<open>The loop \<^verbatim>\<open>for (;;)\<close> over the devices of one card (lines 406 to 472).\<close>

fun card_devices ::
  "alsa_world \<Rightarrow> sound_card \<Rightarrow> string \<Rightarrow> device_walk \<Rightarrow> pass_state \<Rightarrow> pass_state outcome" where
  "card_devices w c card_name Device_Next_Fails st =
    Failed SoundIoErrorSystemResources Info_Destroyed"
| "card_devices w c card_name Device_End st = Ok st"
| "card_devices w c card_name (Device_Next d rest) st =
    and_then (raw_streams w c card_name d stream_types st) (card_devices w c card_name rest)"

text \<open>
  The loop \<^verbatim>\<open>while (card_index >= 0)\<close> (lines 384 to 478). Its argument is the answer
  of the \<^verbatim>\<open>snd_card_next\<close> call that precedes the test; inside the loop that is the
  call of line 474, whose failure destroys \<^verbatim>\<open>devices_info\<close>.
\<close>

fun raw_cards :: "alsa_world \<Rightarrow> card_walk \<Rightarrow> pass_state \<Rightarrow> pass_state outcome" where
  "raw_cards w Card_Next_Fails st = Failed SoundIoErrorSystemResources Info_Destroyed"
| "raw_cards w Card_End st = Ok st"
| "raw_cards w (Card_Next c rest) st =
    (case snd_ctl_open c of
       Ctl_ENOENT \<Rightarrow> Ok st
     | Ctl_Error \<Rightarrow> Failed SoundIoErrorOpeningDevice Info_Destroyed
     | Ctl_Opened \<Rightarrow>
         (case snd_ctl_card_info c of
            None \<Rightarrow> Failed SoundIoErrorSystemResources Info_Destroyed
          | Some card_name \<Rightarrow>
              and_then (card_devices w c card_name (snd_ctl_pcm_next_device c) st)
                (raw_cards w rest)))"

subsection \<open>The pass\<close>

text \<open>
  \<^verbatim>\<open>refresh_devices\<close>: the return code and the backend state it leaves. The pass starts
  (\<open>new_pass\<close>) with the empty lists of a fresh \<^verbatim>\<open>SoundIoDevicesInfo\<close>, its creation
  being the first allocating call. The first
  \<^verbatim>\<open>snd_card_next\<close> (line 375) returns on failure without \<^verbatim>\<open>destroy(devices_info)\<close>.
  The last block (lines 480 to 486) publishes under the mutex.
\<close>

definition new_pass :: "alsa_world \<Rightarrow> pass_state" where
  "new_pass w =
    \<lparr>devices_info = (blank_devices_info w)\<lparr>output_devices := [], input_devices := []\<rparr>,
     allocations = 1\<rparr>"

definition refresh_devices :: "alsa_world \<Rightarrow> SoundIoAlsa \<Rightarrow> unit outcome \<times> SoundIoAlsa" where
  "refresh_devices w sia =
    (if \<not> alloc_ok w 0 then (Failed SoundIoErrorNoMem Info_Not_Allocated, sia)
     else
       (case snd_device_name_hint w of
          None \<Rightarrow> (Failed SoundIoErrorNoMem Info_Destroyed, sia)
        | Some hints \<Rightarrow>
            (case refresh_hints w hints (new_pass w) of
               Failed e c \<Rightarrow> (Failed e c, sia)
             | Panic m \<Rightarrow> (Panic m, sia)
             | Null_Dereference \<Rightarrow> (Null_Dereference, sia)
             | Ok st \<Rightarrow>
                 (case snd_card_next w of
                    Card_Next_Fails \<Rightarrow>
                      (Failed SoundIoErrorSystemResources Info_Not_Destroyed, sia)
                  | walk \<Rightarrow>
                      (case raw_cards w walk st of
                         Failed e c \<Rightarrow> (Failed e c, sia)
                       | Panic m \<Rightarrow> (Panic m, sia)
                       | Null_Dereference \<Rightarrow> (Null_Dereference, sia)
                       | Ok st' \<Rightarrow>
                           (Ok (),
                            sia\<lparr>ready_devices_info := Some (devices_info st'),
                                have_devices_flag := True,
                                cond_signals := cond_signals sia + 1\<rparr>))))))"

section \<open>The Watcher Thread (device_thread_run)\<close>

text \<open>
  \<^verbatim>\<open>struct inotify_event\<close>. \<open>event_name\<close> holds the bytes of the flexible array
  \<^verbatim>\<open>name\<close>; the kernel writes \<open>event_len\<close> of them, padded with NUL.
\<close>

record inotify_event =
  wd :: int
  event_mask :: "32 word"
  cookie :: "32 word"
  event_len :: "32 word"
  event_name :: string

text \<open>The flag values of \<^verbatim>\<open><sys/inotify.h>\<close> and \<^verbatim>\<open><poll.h>\<close> on Linux.\<close>

definition IN_CREATE :: "32 word" where "IN_CREATE = 0x00000100"
definition IN_DELETE :: "32 word" where "IN_DELETE = 0x00000200"
definition IN_ISDIR :: "32 word" where "IN_ISDIR = 0x40000000"
definition POLLIN :: "16 word" where "POLLIN = 0x0001"

text \<open>\<^verbatim>\<open>event->name[i]\<close>; past the bytes given, the padding.\<close>

definition name_at :: "inotify_event \<Rightarrow> nat \<Rightarrow> char" where
  "name_at event i = (if i < length (event_name event) then event_name event ! i else CHR 0x00)"

text \<open>
  The four tests of the loop over the events of a buffer (lines 544 to 555): \<open>False\<close>
  where the code says \<^verbatim>\<open>continue\<close>, \<open>True\<close> where it reaches
  \<^verbatim>\<open>got_rescan_event = true\<close>.
\<close>

definition event_requests_rescan :: "inotify_event \<Rightarrow> bool" where
  "event_requests_rescan event =
    (if \<not> (event_mask event AND IN_CREATE \<noteq> 0 \<or> event_mask event AND IN_DELETE \<noteq> 0)
     then False
     else if event_mask event AND IN_ISDIR \<noteq> 0 then False
     else if event_len event = 0 \<or> event_len event < 8 then False
     else if name_at event 0 \<noteq> CHR ''p'' \<or> name_at event 1 \<noteq> CHR ''c'' \<or>
             name_at event 2 \<noteq> CHR ''m''
     then False
     else True)"

text \<open>The loop over the events of one buffer, which stops at the first hit.\<close>

fun scan_events :: "inotify_event list \<Rightarrow> bool \<Rightarrow> bool" where
  "scan_events [] got_rescan_event = got_rescan_event"
| "scan_events (event # events) got_rescan_event =
    (if event_requests_rescan event then True else scan_events events got_rescan_event)"

text \<open>
  The loop that empties the inotify descriptor (lines 526 to 559). The descriptor is the
  list of what the coming \<^verbatim>\<open>read\<close> calls return: a buffer of events, or \<open>[]\<close> for a
  return value \<open>\<le> 0\<close>; after the last one \<^verbatim>\<open>read\<close> fails with EAGAIN.
\<close>

fun read_notify :: "inotify_event list list \<Rightarrow> bool \<Rightarrow> bool \<times> inotify_event list list" where
  "read_notify [] got_rescan_event = (got_rescan_event, [])"
| "read_notify (buf # pending) got_rescan_event =
    (if buf = [] then (got_rescan_event, pending)
     else read_notify pending (scan_events buf got_rescan_event))"

text \<open>The same for the pipe (lines 563 to 574); the list holds the return values.\<close>

fun read_pipe :: "int list \<Rightarrow> int list" where
  "read_pipe [] = []"
| "read_pipe (len # pending) = (if len \<le> 0 then pending else read_pipe pending)"

datatype poll_errno = EINTR | ENOMEM | EFAULT | EINVAL

record poll_answer =
  poll_num :: int
  errno :: poll_errno
  revents_notify :: "16 word"
  revents_pipe :: "16 word"

text \<open>
  The thread's view of the world: the \<^verbatim>\<open>atomic_flag abort_flag\<close> (set while the thread
  is to run on, cleared by \<^verbatim>\<open>destroy_alsa\<close>), the two descriptors, the backend, and
  the number of calls of \<^verbatim>\<open>refresh_devices\<close> made so far.
\<close>

record watcher =
  abort_flag :: bool
  notify_fd :: "inotify_event list list"
  notify_pipe_fd :: "int list"
  backend :: SoundIoAlsa
  passes :: nat

datatype loop_step = Loop_Continue | Loop_Break | Loop_Panic string | Loop_Null_Dereference

text \<open>
  One turn of the loop \<^verbatim>\<open>for (;;)\<close> of \<^verbatim>\<open>device_thread_run\<close>, from the return of
  \<^verbatim>\<open>poll\<close> on. A failed \<^verbatim>\<open>poll\<close> other than EINTR ends the process (an assertion or
  the panic). A pass that returns an error code ends it with the message
  \<^verbatim>\<open>"error refreshing devices: %s"\<close>; a pass that panics or reads through a null
  pointer has ended it already, with its own message or none.
\<close>

definition device_thread_turn :: "alsa_world \<Rightarrow> poll_answer \<Rightarrow> watcher \<Rightarrow> loop_step \<times> watcher" where
  "device_thread_turn w p wt =
    (if \<not> abort_flag wt then (Loop_Break, wt\<lparr>abort_flag := True\<rparr>)
     else if poll_num p = - 1 then
       (if errno p = EINTR then (Loop_Continue, wt)
        else (Loop_Panic ''kernel ran out of polling memory'', wt))
     else if poll_num p \<le> 0 then (Loop_Continue, wt)
     else
       let (got1, nfd) = (if revents_notify p AND POLLIN \<noteq> 0
                          then read_notify (notify_fd wt) False
                          else (False, notify_fd wt));
           (got2, pfd) = (if revents_pipe p AND POLLIN \<noteq> 0
                          then (True, read_pipe (notify_pipe_fd wt))
                          else (got1, notify_pipe_fd wt));
           wt1 = wt\<lparr>notify_fd := nfd, notify_pipe_fd := pfd\<rparr>
       in
       if got2 then
         (case refresh_devices w (backend wt1) of
            (Ok u, sia) \<Rightarrow> (Loop_Continue, wt1\<lparr>backend := sia, passes := passes wt1 + 1\<rparr>)
          | (Failed err c, sia) \<Rightarrow>
              (Loop_Panic (''error refreshing devices: '' @ soundio_error_string w err),
               wt1\<lparr>backend := sia, passes := passes wt1 + 1\<rparr>)
          | (Panic m, sia) \<Rightarrow>
              (Loop_Panic m, wt1\<lparr>backend := sia, passes := passes wt1 + 1\<rparr>)
          | (Null_Dereference, sia) \<Rightarrow>
              (Loop_Null_Dereference, wt1\<lparr>backend := sia, passes := passes wt1 + 1\<rparr>))
       else (Loop_Continue, wt1))"

section \<open>The consumer side (flush_events)\<close>

text \<open>
  \<^verbatim>\<open>struct SoundIo\<close>, reduced to the current inventory, the backend and the number of
  calls of the application's \<^verbatim>\<open>on_devices_change\<close> made so far.
\<close>

record SoundIo =
  safe_devices_info :: "SoundIoDevicesInfo option"
  backend_data :: SoundIoAlsa
  on_devices_change_calls :: nat

text \<open>
  \<^verbatim>\<open>block_until_have_devices\<close> on a backend nobody else writes to: each return of
  \<^verbatim>\<open>soundio_os_cond_wait\<close> finds the state as it was. Without the flag the loop never
  ends, which is the value \<open>None\<close>.
\<close>

partial_function (option) block_until_have_devices :: "SoundIoAlsa \<Rightarrow> unit option" where
  "block_until_have_devices sia =
    (if have_devices_flag sia then Some () else block_until_have_devices sia)"

definition flush_events :: "SoundIo \<Rightarrow> SoundIo option" where
  "flush_events soundio =
    (case block_until_have_devices (backend_data soundio) of
       None \<Rightarrow> None
     | Some u \<Rightarrow>
         (case ready_devices_info (backend_data soundio) of
            Some info \<Rightarrow>
              Some (soundio\<lparr>safe_devices_info := Some info,
                            backend_data := (backend_data soundio)\<lparr>ready_devices_info := None\<rparr>,
                            on_devices_change_calls := on_devices_change_calls soundio + 1\<rparr>)
          | None \<Rightarrow> Some soundio))"

section \<open>Notions of the specification\<close>

text \<open>
  The definitions of this section are not code of \<^verbatim>\<open>alsa.cpp\<close>: they put the words of
  the specification, and two invariants of the pass, into HOL, to be compared with the
  functions above.
\<close>

subsection \<open>Predicates\<close>

text \<open>
  A qualifying change in the words of the specification: a creation or a deletion, not of
  a directory, with a name field of at least 8 bytes that begins with \<open>pcm\<close>.
\<close>

definition qualifying_change :: "inotify_event \<Rightarrow> bool" where
  "qualifying_change event =
    ((event_mask event AND IN_CREATE \<noteq> 0 \<or> event_mask event AND IN_DELETE \<noteq> 0) \<and>
     event_mask event AND IN_ISDIR = 0 \<and>
     8 \<le> unat (event_len event) \<and>
     prefix ''pcm'' (event_name event))"

text \<open>Reading a text without regard to letter case (ASCII).\<close>

definition lower_case :: "char \<Rightarrow> char" where
  "lower_case c =
    (case map_of (zip ''ABCDEFGHIJKLMNOPQRSTUVWXYZ'' ''abcdefghijklmnopqrstuvwxyz'') c of
       Some l \<Rightarrow> l
     | None \<Rightarrow> c)"

definition mentions_output_any_case :: "string \<Rightarrow> bool" where
  "mentions_output_any_case s = sublist ''output'' (map lower_case s)"

text \<open>No descriptor of the inventory bears a name of the exclusion list.\<close>

definition no_excluded_names :: "SoundIoDevicesInfo \<Rightarrow> bool" where
  "no_excluded_names info =
    (list_all (\<lambda>d. \<not> hint_is_excluded (name d)) (output_devices info) \<and>
     list_all (\<lambda>d. \<not> hint_is_excluded (name d)) (input_devices info))"

text \<open>
  The second inventory is the first one with raw descriptors appended, none of them under
  an excluded name, and with the same default indices.
\<close>

definition raw_extension :: "SoundIoDevicesInfo \<Rightarrow> SoundIoDevicesInfo \<Rightarrow> bool" where
  "raw_extension info info' =
    (\<exists>xs ys. output_devices info' = output_devices info @ xs \<and>
             input_devices info' = input_devices info @ ys \<and>
             list_all (\<lambda>d. is_raw d \<and> \<not> hint_is_excluded (name d)) xs \<and>
             list_all (\<lambda>d. is_raw d \<and> \<not> hint_is_excluded (name d)) ys \<and>
             default_output_index info' = default_output_index info \<and>
             default_input_index info' = default_input_index info)"

section \<open>Concrete inputs\<close>

text \<open>
  Small worlds on which the functions are evaluated: an allocator that never fails, a PCM
  that answers every query (rates from 44100 to 96000 Hz), blank objects filled with
  zeros, and a card with one playback device.
\<close>

definition plain_pcm :: pcm_answers where
  "plain_pcm =
    \<lparr>snd_pcm_open_ok = True, snd_pcm_hw_params_any_ok = True,
     snd_pcm_hw_params_set_rate_resample_ok = True, snd_pcm_hw_params_set_access_ok = True,
     snd_pcm_hw_params_set_channels_last_ok = True,
     snd_pcm_hw_params_get_rate_max = Some (96000, 0),
     snd_pcm_hw_params_get_rate_min = Some (44100, 0),
     snd_pcm_get_chmap = None, snd_pcm_query_chmaps = None\<rparr>"

definition zero_device :: SoundIoDevice where
  "zero_device =
    \<lparr>ref_count = 0, name = [], description = [], is_raw = False,
     purpose = SoundIoDevicePurposeOutput, sample_rate_min = 0, sample_rate_max = 0,
     sample_rate_default = 0,
     channel_layout = \<lparr>layout_name = None, channel_count = 0, channels = []\<rparr>\<rparr>"

definition unset_devices_info :: SoundIoDevicesInfo where
  "unset_devices_info =
    \<lparr>output_devices = [], input_devices = [], default_output_index = - 1,
     default_input_index = - 1\<rparr>"

definition plain_params :: layout_params where
  "plain_params = \<lparr>SOUNDIO_MAX_CHANNELS = 24, soundio_channel_layout_detect_builtin = id\<rparr>"

definition plain_error_string :: "SoundIoError \<Rightarrow> string" where
  "plain_error_string err =
    (case err of
       SoundIoErrorNoMem \<Rightarrow> ''out of memory''
     | SoundIoErrorSystemResources \<Rightarrow> ''system resource not available''
     | SoundIoErrorOpeningDevice \<Rightarrow> ''unable to open device'')"

definition plain_world :: "device_hint list \<Rightarrow> card_walk \<Rightarrow> alsa_world" where
  "plain_world hints cards =
    \<lparr>alloc_ok = (\<lambda>n. True), snd_device_name_hint = Some hints,
     pcm = (\<lambda>nm stream. plain_pcm), snd_card_next = cards,
     blank_device = zero_device, blank_devices_info = unset_devices_info,
     params = plain_params, soundio_error_string = plain_error_string\<rparr>"

definition scenario_hints :: "device_hint list" where
  "scenario_hints =
    [\<lparr>NAME = Some ''default:CARD'', DESC = Some ''Default Audio Device'', IOID = None\<rparr>,
     \<lparr>NAME = Some ''null'', DESC = Some ''Discard all samples'', IOID = None\<rparr>,
     \<lparr>NAME = Some ''sysdefault:CARD'', DESC = Some ''Default Audio Device'', IOID = None\<rparr>]"

definition stereo :: snd_pcm_chmap_query_t where
  "stereo = \<lparr>query_type = 1, query_map = \<lparr>chmap_channels = 2, pos = [3, 4]\<rparr>\<rparr>"

definition surround_a :: snd_pcm_chmap_query_t where
  "surround_a = \<lparr>query_type = 1, query_map = \<lparr>chmap_channels = 6, pos = [3, 4, 5, 6, 7, 8]\<rparr>\<rparr>"

definition surround_b :: snd_pcm_chmap_query_t where
  "surround_b = \<lparr>query_type = 1, query_map = \<lparr>chmap_channels = 6, pos = [3, 4, 9, 10, 7, 8]\<rparr>\<rparr>"

definition playback_only_device :: pcm_device where
  "playback_only_device =
    \<lparr>device_index = 0,
     snd_ctl_pcm_info = (\<lambda>stream. case stream of
        SND_PCM_STREAM_PLAYBACK \<Rightarrow> Pcm_Info ''ALC892 Analog''
      | SND_PCM_STREAM_CAPTURE \<Rightarrow> Pcm_ENOENT),
     snd_pcm_query_chmaps_from_hw = (\<lambda>stream. Some [stereo, surround_a, surround_b])\<rparr>"

definition card0 :: sound_card where
  "card0 =
    \<lparr>card_index = 0, snd_ctl_open = Ctl_Opened, snd_ctl_card_info = Some ''HDA Intel PCH'',
     snd_ctl_pcm_next_device = Device_Next playback_only_device Device_End\<rparr>"

definition one_card_world :: alsa_world where
  "one_card_world = plain_world scenario_hints (Card_Next card0 Card_End)"

definition idle_backend :: SoundIoAlsa where
  "idle_backend = \<lparr>ready_devices_info = None, have_devices_flag = False, cond_signals = 0\<rparr>"

definition no_layout :: SoundIoChannelLayout where
  "no_layout = \<lparr>layout_name = None, channel_count = 0, channels = []\<rparr>"

definition surround_layout :: SoundIoChannelLayout where
  "surround_layout =
    \<lparr>layout_name = None, channel_count = 6,
     channels = [SoundIoChannelIdFrontLeft, SoundIoChannelIdFrontRight,
                 SoundIoChannelIdBackLeft, SoundIoChannelIdBackRight,
                 SoundIoChannelIdFrontCenter, SoundIoChannelIdLfe]\<rparr>"

text \<open>The descriptor that the probe of \<open>plain_pcm\<close> leaves of a \<open>zero_device\<close>.\<close>

definition probed ::
  "string \<Rightarrow> string \<Rightarrow> bool \<Rightarrow> SoundIoDevicePurpose \<Rightarrow> SoundIoChannelLayout \<Rightarrow> SoundIoDevice" where
  "probed nm descr raw p layout =
    \<lparr>ref_count = 1, name = nm, description = descr, is_raw = raw, purpose = p,
     sample_rate_min = 96000, sample_rate_max = 0, sample_rate_default = 48000,
     channel_layout = layout\<rparr>"

definition one_card_inventory :: SoundIoDevicesInfo where
  "one_card_inventory =
    \<lparr>output_devices =
       [probed ''default:CARD'' ''Default Audio Device'' False SoundIoDevicePurposeOutput no_layout,
        probed ''hw:0,0'' ''HDA Intel PCH ALC892 Analog'' True SoundIoDevicePurposeOutput
          surround_layout],
     input_devices =
       [probed ''default:CARD'' ''Default Audio Device'' False SoundIoDevicePurposeInput no_layout],
     default_output_index = 0, default_input_index = 0\<rparr>"

definition uppercase_hint :: device_hint where
  "uppercase_hint =
    \<lparr>NAME = Some ''hdmi:CARD=PCH,DEV=0'',
     DESC = Some (''HDA Intel PCH'' @ [CHR 0x0A] @ ''HDMI OUTPUT''),
     IOID = None\<rparr>"

definition uppercase_inventory :: SoundIoDevicesInfo where
  "uppercase_inventory =
    \<lparr>output_devices =
       [probed ''hdmi:CARD=PCH,DEV=0'' ''HDA Intel PCH: HDMI OUTPUT'' False
          SoundIoDevicePurposeOutput no_layout],
     input_devices =
       [probed ''hdmi:CARD=PCH,DEV=0'' ''HDA Intel PCH: HDMI OUTPUT'' False
          SoundIoDevicePurposeInput no_layout],
     default_output_index = - 1, default_input_index = - 1\<rparr>"

definition lowercase_hint :: device_hint where
  "lowercase_hint =
    \<lparr>NAME = Some ''hdmi:CARD=PCH,DEV=0'',
     DESC = Some (''HDA Intel PCH'' @ [CHR 0x0A] @ ''HDMI Output''),
     IOID = None\<rparr>"

definition lowercase_pass :: pass_state where
  "lowercase_pass =
    \<lparr>devices_info =
       \<lparr>output_devices =
          [probed ''hdmi:CARD=PCH,DEV=0'' ''HDA Intel PCH: HDMI Output'' False
             SoundIoDevicePurposeOutput no_layout],
        input_devices = [], default_output_index = - 1, default_input_index = - 1\<rparr>,
     allocations = 5\<rparr>"

definition output_detail_hints :: "device_hint list" where
  "output_detail_hints =
    [\<lparr>NAME = Some ''default:CARD'',
      DESC = Some (''Default Audio Device'' @ [CHR 0x0A] @ ''Analog Output''),
      IOID = None\<rparr>,
     \<lparr>NAME = Some ''null'', DESC = Some ''Discard all samples'', IOID = None\<rparr>,
     \<lparr>NAME = Some ''sysdefault:CARD'', DESC = Some ''Default Audio Device'', IOID = None\<rparr>]"

definition output_detail_inventory :: SoundIoDevicesInfo where
  "output_detail_inventory =
    \<lparr>output_devices =
       [probed ''default:CARD'' ''Default Audio Device: Analog Output'' False
          SoundIoDevicePurposeOutput no_layout],
     input_devices = [], default_output_index = 0, default_input_index = - 1\<rparr>"

definition null_duplex_hint :: device_hint where
  "null_duplex_hint =
    \<lparr>NAME = Some ''null'', DESC = Some ''Discard all samples'', IOID = Some ''Duplex''\<rparr>"

definition bare_duplex_hint :: device_hint where
  "bare_duplex_hint =
    \<lparr>NAME = Some ''plughw:CARD=PCH,DEV=0'', DESC = None, IOID = Some ''Duplex''\<rparr>"

definition plug_duplex_hint :: device_hint where
  "plug_duplex_hint =
    \<lparr>NAME = Some ''plughw:CARD=PCH,DEV=0'', DESC = Some ''HDA Intel PCH'', IOID = Some ''Duplex''\<rparr>"

definition duplex_world :: alsa_world where
  "duplex_world = plain_world (scenario_hints @ [plug_duplex_hint]) Card_End"

definition scenario_head_pass :: pass_state where
  "scenario_head_pass =
    \<lparr>devices_info =
       \<lparr>output_devices =
          [probed ''default:CARD'' ''Default Audio Device'' False SoundIoDevicePurposeOutput
             no_layout],
        input_devices =
          [probed ''default:CARD'' ''Default Audio Device'' False SoundIoDevicePurposeInput
             no_layout],
        default_output_index = 0, default_input_index = 0\<rparr>,
     allocations = 9\<rparr>"

definition pcm_created :: inotify_event where
  "pcm_created =
    \<lparr>wd = 1, event_mask = 0x100, cookie = 0, event_len = 16,
     event_name = ''pcmC0D0p'' @ replicate 8 (CHR 0x00)\<rparr>"

definition pcm_deleted :: inotify_event where
  "pcm_deleted =
    \<lparr>wd = 1, event_mask = 0x200, cookie = 0, event_len = 16,
     event_name = ''pcmC0D0c'' @ replicate 8 (CHR 0x00)\<rparr>"

definition control_created :: inotify_event where
  "control_created =
    \<lparr>wd = 1, event_mask = 0x100, cookie = 0, event_len = 16,
     event_name = ''controlC0'' @ replicate 7 (CHR 0x00)\<rparr>"

definition notify_ready :: poll_answer where
  "notify_ready = \<lparr>poll_num = 1, errno = EINTR, revents_notify = 1, revents_pipe = 0\<rparr>"

text \<open>A running watcher with the given reads pending on the inotify descriptor.\<close>

definition watcher_with :: "inotify_event list list \<Rightarrow> watcher" where
  "watcher_with pending =
    \<lparr>abort_flag = True, notify_fd = pending, notify_pipe_fd = [], backend = idle_backend,
     passes = 0\<rparr>"

text \<open>A consumer whose backend has published at least once.\<close>

definition consumer_with :: "SoundIoDevicesInfo option \<Rightarrow> SoundIoDevicesInfo option \<Rightarrow> nat \<Rightarrow> SoundIo" where
  "consumer_with current ready calls =
    \<lparr>safe_devices_info = current,
     backend_data = \<lparr>ready_devices_info = ready, have_devices_flag = True, cond_signals = 1\<rparr>,
     on_devices_change_calls = calls\<rparr>"

section \<open>Channel maps and probing\<close>

lemma best_chmap_from:
  "\<exists>r. best_chmap vs (Some b) = Some r \<and>
       (\<forall>j<length vs. chmap_channels (query_map (vs ! j)) \<le> chmap_channels r) \<and>
       ((r = b \<and> (\<forall>j<length vs. chmap_channels (query_map (vs ! j)) \<le> chmap_channels b)) \<or>
        (\<exists>i<length vs. r = query_map (vs ! i) \<and> chmap_channels b < chmap_channels r \<and>
            (\<forall>j<i. chmap_channels (query_map (vs ! j)) < chmap_channels r)))"
proof (induction vs arbitrary: b)
  case Nil
  show ?case by simp
next
  case (Cons v vs)
  let ?c = "\<lambda>m. chmap_channels m"
  show ?case
  proof (cases "?c (query_map v) > ?c b")
    case True
    from Cons.IH [of "query_map v"] obtain r where
      r: "best_chmap vs (Some (query_map v)) = Some r"
      and all: "\<forall>j<length vs. ?c (query_map (vs ! j)) \<le> ?c r"
      and alt: "(r = query_map v \<and> (\<forall>j<length vs. ?c (query_map (vs ! j)) \<le> ?c (query_map v))) \<or>
        (\<exists>i<length vs. r = query_map (vs ! i) \<and> ?c (query_map v) < ?c r \<and>
            (\<forall>j<i. ?c (query_map (vs ! j)) < ?c r))"
      by blast
    have vr: "?c (query_map v) \<le> ?c r" using alt by auto
    have eq: "best_chmap (v # vs) (Some b) = Some r" using True r by simp
    have all': "\<forall>j<length (v # vs). ?c (query_map ((v # vs) ! j)) \<le> ?c r"
      using all vr by (auto simp: nth_Cons split: nat.splits)
    from alt have "\<exists>i<length (v # vs). r = query_map ((v # vs) ! i) \<and> ?c b < ?c r \<and>
            (\<forall>j<i. ?c (query_map ((v # vs) ! j)) < ?c r)"
    proof
      assume "r = query_map v \<and> (\<forall>j<length vs. ?c (query_map (vs ! j)) \<le> ?c (query_map v))"
      then show ?thesis using True by (intro exI [of _ 0]) simp
    next
      assume "\<exists>i<length vs. r = query_map (vs ! i) \<and> ?c (query_map v) < ?c r \<and>
            (\<forall>j<i. ?c (query_map (vs ! j)) < ?c r)"
      then obtain i where i: "i < length vs" "r = query_map (vs ! i)"
        "?c (query_map v) < ?c r" "\<forall>j<i. ?c (query_map (vs ! j)) < ?c r" by blast
      have "?c b < ?c r" using True i(3) by simp
      moreover have "\<forall>j<Suc i. ?c (query_map ((v # vs) ! j)) < ?c r"
        using i(3,4) by (auto simp: nth_Cons split: nat.splits)
      ultimately show ?thesis using i(1,2) by (intro exI [of _ "Suc i"]) simp
    qed
    with eq all' show ?thesis by blast
  next
    case False
    from Cons.IH [of b] obtain r where
      r: "best_chmap vs (Some b) = Some r"
      and all: "\<forall>j<length vs. ?c (query_map (vs ! j)) \<le> ?c r"
      and alt: "(r = b \<and> (\<forall>j<length vs. ?c (query_map (vs ! j)) \<le> ?c b)) \<or>
        (\<exists>i<length vs. r = query_map (vs ! i) \<and> ?c b < ?c r \<and>
            (\<forall>j<i. ?c (query_map (vs ! j)) < ?c r))"
      by blast
    have br: "?c b \<le> ?c r" using alt by auto
    have vb: "?c (query_map v) \<le> ?c b" using False by simp
    have eq: "best_chmap (v # vs) (Some b) = Some r" using False r by simp
    have all': "\<forall>j<length (v # vs). ?c (query_map ((v # vs) ! j)) \<le> ?c r"
      using all vb br by (auto simp: nth_Cons split: nat.splits)
    from alt have "(r = b \<and> (\<forall>j<length (v # vs). ?c (query_map ((v # vs) ! j)) \<le> ?c b)) \<or>
        (\<exists>i<length (v # vs). r = query_map ((v # vs) ! i) \<and> ?c b < ?c r \<and>
            (\<forall>j<i. ?c (query_map ((v # vs) ! j)) < ?c r))"
    proof
      assume "r = b \<and> (\<forall>j<length vs. ?c (query_map (vs ! j)) \<le> ?c b)"
      then show ?thesis using vb by (auto simp: nth_Cons split: nat.splits)
    next
      assume "\<exists>i<length vs. r = query_map (vs ! i) \<and> ?c b < ?c r \<and>
            (\<forall>j<i. ?c (query_map (vs ! j)) < ?c r)"
      then obtain i where i: "i < length vs" "r = query_map (vs ! i)"
        "?c b < ?c r" "\<forall>j<i. ?c (query_map (vs ! j)) < ?c r" by blast
      have "\<forall>j<Suc i. ?c (query_map ((v # vs) ! j)) < ?c r"
        using i(3,4) vb by (auto simp: nth_Cons split: nat.splits)
      then have "\<exists>k<length (v # vs). r = query_map ((v # vs) ! k) \<and> ?c b < ?c r \<and>
            (\<forall>j<k. ?c (query_map ((v # vs) ! j)) < ?c r)"
        using i(1,2,3) by (intro exI [of _ "Suc i"]) simp
      then show ?thesis by blast
    qed
    with eq all' show ?thesis by blast
  qed
qed

lemma best_chmap_first_greatest:
  assumes "maps \<noteq> []"
  shows "\<exists>i<length maps.
      best_chmap maps None = Some (query_map (maps ! i)) \<and>
      (\<forall>j<length maps. chmap_channels (query_map (maps ! j)) \<le> chmap_channels (query_map (maps ! i))) \<and>
      (\<forall>j<i. chmap_channels (query_map (maps ! j)) < chmap_channels (query_map (maps ! i)))"
proof -
  from assms obtain v vs where m: "maps = v # vs" by (cases maps) auto
  let ?c = "\<lambda>m. chmap_channels m"
  from best_chmap_from [of vs "query_map v"] obtain r where
      r: "best_chmap vs (Some (query_map v)) = Some r"
      and all: "\<forall>j<length vs. ?c (query_map (vs ! j)) \<le> ?c r"
      and alt: "(r = query_map v \<and> (\<forall>j<length vs. ?c (query_map (vs ! j)) \<le> ?c (query_map v))) \<or>
        (\<exists>i<length vs. r = query_map (vs ! i) \<and> ?c (query_map v) < ?c r \<and>
            (\<forall>j<i. ?c (query_map (vs ! j)) < ?c r))"
      by blast
  have eq: "best_chmap maps None = Some r" using m r by simp
  from alt show ?thesis
  proof
    assume a: "r = query_map v \<and> (\<forall>j<length vs. ?c (query_map (vs ! j)) \<le> ?c (query_map v))"
    have "\<forall>j<length maps. ?c (query_map (maps ! j)) \<le> ?c (query_map (maps ! 0))"
      using a m by (auto simp: nth_Cons split: nat.splits)
    then show ?thesis using eq a m by (intro exI [of _ 0]) simp
  next
    assume "\<exists>i<length vs. r = query_map (vs ! i) \<and> ?c (query_map v) < ?c r \<and>
            (\<forall>j<i. ?c (query_map (vs ! j)) < ?c r)"
    then obtain i where i: "i < length vs" "r = query_map (vs ! i)"
        "?c (query_map v) < ?c r" "\<forall>j<i. ?c (query_map (vs ! j)) < ?c r" by blast
    have 1: "\<forall>j<length maps. ?c (query_map (maps ! j)) \<le> ?c (query_map (maps ! Suc i))"
      using all i(2,3) m by (auto simp: nth_Cons split: nat.splits)
    have 2: "\<forall>j<Suc i. ?c (query_map (maps ! j)) < ?c (query_map (maps ! Suc i))"
      using i(2,3,4) m by (auto simp: nth_Cons split: nat.splits)
    show ?thesis using eq i(1,2) m 1 2 by (intro exI [of _ "Suc i"]) simp
  qed
qed

text \<open>
  Claim C9. When \<open>handle_channel_maps\<close> derives the layout from a list of candidates that
  is not empty, it takes the candidate at some position \<open>i\<close> such that no candidate has
  more channels and every candidate before \<open>i\<close> has strictly fewer: the greatest channel
  count wins, and among equals the first seen. (For an empty array the code dereferences a
  null pointer and derives nothing.)
\<close>

theorem richest_first_seen_chmap:
  assumes "maps \<noteq> []"
  shows "\<exists>i<length maps.
      best_chmap maps None = Some (query_map (maps ! i)) \<and>
      handle_channel_maps lp device (Some maps) =
        Some (get_channel_layout lp device (query_map (maps ! i))) \<and>
      (\<forall>j<length maps. chmap_channels (query_map (maps ! j))
          \<le> chmap_channels (query_map (maps ! i))) \<and>
      (\<forall>j<i. chmap_channels (query_map (maps ! j)) < chmap_channels (query_map (maps ! i)))"
proof -
  from best_chmap_first_greatest [OF assms] obtain i where
    "i < length maps" "best_chmap maps None = Some (query_map (maps ! i))"
    "\<forall>j<length maps. chmap_channels (query_map (maps ! j))
          \<le> chmap_channels (query_map (maps ! i))"
    "\<forall>j<i. chmap_channels (query_map (maps ! j)) < chmap_channels (query_map (maps ! i))"
    by blast
  then show ?thesis
    by (intro exI [of _ i]) (simp add: handle_channel_maps_def)
qed

lemma get_channel_layout_keeps [simp]:
  "name (get_channel_layout lp d m) = name d"
  "is_raw (get_channel_layout lp d m) = is_raw d"
  "purpose (get_channel_layout lp d m) = purpose d"
  "sample_rate_min (get_channel_layout lp d m) = sample_rate_min d"
  "sample_rate_max (get_channel_layout lp d m) = sample_rate_max d"
  "sample_rate_default (get_channel_layout lp d m) = sample_rate_default d"
  by (simp_all add: get_channel_layout_def Let_def)

lemma handle_channel_maps_keeps:
  assumes "handle_channel_maps lp d maps = Some d'"
  shows "name d' = name d" "is_raw d' = is_raw d" "purpose d' = purpose d"
    "sample_rate_min d' = sample_rate_min d"
    "sample_rate_max d' = sample_rate_max d"
    "sample_rate_default d' = sample_rate_default d"
  using assms by (auto simp: handle_channel_maps_def split: option.splits)

lemma probe_device_keeps:
  assumes "probe_device lp a d maps = Some (e, d')"
  shows "name d' = name d" "is_raw d' = is_raw d" "purpose d' = purpose d"
    "sample_rate_max d' = sample_rate_max d"
  using assms
  by (auto simp: probe_device_def Let_def
      split: if_splits option.splits prod.splits dest: handle_channel_maps_keeps)

lemma probe_device_same:
  "probe_device lp a d maps = Some (e, d') \<Longrightarrow>
     name d' = name d \<and> is_raw d' = is_raw d \<and> purpose d' = purpose d"
  by (simp add: probe_device_keeps)

text \<open>
  What a successful probe leaves in the descriptor: the field \<open>sample_rate_min\<close> holds the
  queried maximum (less one when the direction flag is negative), \<open>sample_rate_max\<close> is
  not written, and the default is 48000 Hz when that lies between the queried limits and
  the maximum otherwise.
\<close>

lemma probe_device_success:
  assumes "probe_device lp a d maps = Some (None, d')"
    and "snd_pcm_hw_params_get_rate_max a = Some (max_rate, max_dir)"
    and "snd_pcm_hw_params_get_rate_min a = Some (min_rate, min_dir)"
  shows "sample_rate_min d' = (if max_dir < 0 then max_rate - 1 else max_rate)"
    and "sample_rate_max d' = sample_rate_max d"
    and "sample_rate_default d' =
      (if (if min_dir > 0 then min_rate + 1 else min_rate) \<le> 48000 \<and>
          48000 \<le> (if max_dir < 0 then max_rate - 1 else max_rate)
       then 48000 else (if max_dir < 0 then max_rate - 1 else max_rate))"
proof -
  from assms obtain d1 m1 d2 where
    h: "handle_channel_maps lp d1 m1 = Some d2" and
    d1: "sample_rate_max d1 = sample_rate_max d" and
    d': "d' = d2\<lparr>sample_rate_min := (if max_dir < 0 then max_rate - 1 else max_rate),
            sample_rate_default :=
              (if (if min_dir > 0 then min_rate + 1 else min_rate) \<le> MAX_SAMPLE_RATE \<and>
                  MAX_SAMPLE_RATE \<le> (if max_dir < 0 then max_rate - 1 else max_rate)
               then MAX_SAMPLE_RATE else (if max_dir < 0 then max_rate - 1 else max_rate))\<rparr>"
    unfolding probe_device_def Let_def
    by (simp split: if_split_asm option.split_asm)
  from handle_channel_maps_keeps(5) [OF h] d1 d'
  show "sample_rate_max d' = sample_rate_max d" by simp
  from d' show "sample_rate_min d' = (if max_dir < 0 then max_rate - 1 else max_rate)" by simp
  from d' show "sample_rate_default d' =
      (if (if min_dir > 0 then min_rate + 1 else min_rate) \<le> 48000 \<and>
          48000 \<le> (if max_dir < 0 then max_rate - 1 else max_rate)
       then 48000 else (if max_dir < 0 then max_rate - 1 else max_rate))"
    by (simp add: MAX_SAMPLE_RATE_def)
qed

lemma plain_probe:
  "probe_device lp plain_pcm d None =
    Some (None, d\<lparr>sample_rate_min := 96000, sample_rate_default := 48000\<rparr>)"
  by (simp add: probe_device_def plain_pcm_def handle_channel_maps_def MAX_SAMPLE_RATE_def)

text \<open>
  Claim C1. The claim asks that after a successful probe \<open>sample_rate_min\<close> be the queried
  minimum and \<open>sample_rate_max\<close> the queried maximum. On a device that supports 44100 to
  96000 Hz the code returns success with \<open>sample_rate_min = 96000\<close> and leaves
  \<open>sample_rate_max\<close> as it found it: line 232 assigns \<open>sample_rate_min\<close> a second time
  where \<open>sample_rate_max\<close> was meant. The default rate, 48000 Hz, is as the claim says.
\<close>

theorem probe_device_overwrites_minimum:
  "snd_pcm_hw_params_get_rate_min plain_pcm = Some (44100, 0) \<and>
   snd_pcm_hw_params_get_rate_max plain_pcm = Some (96000, 0) \<and>
   probe_device lp plain_pcm d None =
     Some (None, d\<lparr>sample_rate_min := 96000, sample_rate_default := 48000\<rparr>)"
  using plain_probe [of lp d] by (simp add: plain_pcm_def)

section \<open>Strings\<close>

lemma str_has_prefix_iff: "str_has_prefix big pre \<longleftrightarrow> prefix pre big"
  unfolding str_has_prefix_def
  by (metis append_eq_conv_conj prefix_def take_is_prefix)

lemma strstr_iff: "strstr hay needle \<longleftrightarrow> sublist needle hay"
proof (induction hay)
  case Nil
  show ?case by auto
next
  case (Cons c cs)
  show ?case
    by (simp add: Cons.IH str_has_prefix_iff sublist_Cons_right)
qed

lemma str_partition_on_char_first:
  "c \<notin> set short \<Longrightarrow> str_partition_on_char (short @ c # detail) c = (short, Some detail)"
  by (induction short) auto

lemma hw_name_not_excluded: "\<not> hint_is_excluded (''hw:'' @ rest)"
  by (simp add: hint_is_excluded_def str_has_prefix_def)

lemma default_card_not_excluded: "\<not> hint_is_excluded ''default:CARD''"
  by (simp add: hint_is_excluded_def str_has_prefix_def)

section \<open>One stream of one device\<close>

lemma and_then_Ok: "and_then r f = Ok y \<Longrightarrow> \<exists>x. r = Ok x \<and> f x = Ok y"
  by (cases r) auto

lemma and_then_Failed:
  "and_then r f = Failed e c \<Longrightarrow> r = Failed e c \<or> (\<exists>x. r = Ok x \<and> f x = Failed e c)"
  by (cases r) auto

lemma hint_stream_playback:
  assumes "hint_stream w nm descr descr1 pb cap SND_PCM_STREAM_PLAYBACK st = Ok st'"
  shows "(\<not> pb \<and> st' = st) \<or>
     (pb \<and> (\<exists>d. name d = nm \<and> \<not> is_raw d \<and> purpose d = SoundIoDevicePurposeOutput \<and>
        output_devices (devices_info st') = output_devices (devices_info st) @ [d] \<and>
        input_devices (devices_info st') = input_devices (devices_info st) \<and>
        default_input_index (devices_info st') = default_input_index (devices_info st) \<and>
        default_output_index (devices_info st') =
          (if str_has_prefix nm ''default:''
           then int (length (output_devices (devices_info st)))
           else default_output_index (devices_info st))))"
  using assms
  by (auto simp: hint_stream_def Let_def append_device_def
      split: if_splits option.splits prod.splits dest!: probe_device_same)

lemma hint_stream_capture:
  assumes "hint_stream w nm descr descr1 pb cap SND_PCM_STREAM_CAPTURE st = Ok st'"
  shows "((\<not> cap \<or> capture_is_suppressed descr1) \<and> st' = st) \<or>
     (cap \<and> \<not> capture_is_suppressed descr1 \<and>
      (\<exists>d. name d = nm \<and> \<not> is_raw d \<and> purpose d = SoundIoDevicePurposeInput \<and>
        input_devices (devices_info st') = input_devices (devices_info st) @ [d] \<and>
        output_devices (devices_info st') = output_devices (devices_info st) \<and>
        default_output_index (devices_info st') = default_output_index (devices_info st) \<and>
        default_input_index (devices_info st') =
          (if str_has_prefix nm ''default:''
           then int (length (input_devices (devices_info st)))
           else default_input_index (devices_info st))))"
  using assms
  by (auto simp: hint_stream_def Let_def append_device_def
      split: if_splits option.splits prod.splits dest!: probe_device_same)

lemma hint_streams_both:
  assumes "hint_streams w nm descr descr1 pb cap stream_types st = Ok st'"
  shows "\<exists>s1. hint_stream w nm descr descr1 pb cap SND_PCM_STREAM_PLAYBACK st = Ok s1 \<and>
    hint_stream w nm descr descr1 pb cap SND_PCM_STREAM_CAPTURE s1 = Ok st'"
  using assms by (auto simp: stream_types_def dest!: and_then_Ok)

lemma raw_stream_Ok:
  assumes "raw_stream w c card_name d stream st = Ok st'"
  shows "st' = st \<or>
     (\<exists>dev. is_raw dev \<and>
        name dev = ''hw:'' @ decimal (card_index c) @ '','' @ decimal (device_index d) \<and>
        purpose dev = (case stream of SND_PCM_STREAM_PLAYBACK \<Rightarrow> SoundIoDevicePurposeOutput
                        | SND_PCM_STREAM_CAPTURE \<Rightarrow> SoundIoDevicePurposeInput) \<and>
        devices_info st' = append_device stream dev (devices_info st))"
  using assms
  by (auto simp: raw_stream_def Let_def
      split: if_splits option.splits prod.splits pcm_info_answer.splits snd_pcm_stream_t.splits
      dest!: probe_device_same)

lemma refresh_hint_excluded:
  "NAME h = Some nm \<Longrightarrow> hint_is_excluded nm \<Longrightarrow> refresh_hint w h st = Ok st"
  by (simp add: refresh_hint_def)

lemma refresh_hint_without_description:
  "NAME h = Some nm \<Longrightarrow> \<not> hint_is_excluded nm \<Longrightarrow> DESC h = None \<Longrightarrow>
     refresh_hint w h st = Null_Dereference"
  by (simp add: refresh_hint_def)

lemma refresh_hints_append:
  "refresh_hints w (xs @ ys) st = and_then (refresh_hints w xs st) (refresh_hints w ys)"
proof (induction xs arbitrary: st)
  case Nil
  show ?case by simp
next
  case (Cons x xs)
  show ?case by (cases "refresh_hint w x st") (simp_all add: Cons.IH)
qed

section \<open>Names in the inventory\<close>

lemma hint_stream_names:
  assumes "hint_stream w nm descr descr1 pb cap stream st = Ok st'"
    and "\<not> hint_is_excluded nm" and "no_excluded_names (devices_info st)"
  shows "no_excluded_names (devices_info st')"
proof (cases stream)
  case SND_PCM_STREAM_PLAYBACK
  with assms(1) hint_stream_playback [of w nm descr descr1 pb cap st st']
  show ?thesis using assms(2,3) by (auto simp: no_excluded_names_def)
next
  case SND_PCM_STREAM_CAPTURE
  with assms(1) hint_stream_capture [of w nm descr descr1 pb cap st st']
  show ?thesis using assms(2,3) by (auto simp: no_excluded_names_def)
qed

lemma hint_streams_names:
  assumes "hint_streams w nm descr descr1 pb cap streams st = Ok st'"
    and "\<not> hint_is_excluded nm" and "no_excluded_names (devices_info st)"
  shows "no_excluded_names (devices_info st')"
  using assms
proof (induction streams arbitrary: st)
  case Nil
  then show ?case by simp
next
  case (Cons s ss)
  from Cons.prems(1) obtain st1 where
    1: "hint_stream w nm descr descr1 pb cap s st = Ok st1" and
    2: "hint_streams w nm descr descr1 pb cap ss st1 = Ok st'"
    by (auto dest: and_then_Ok)
  from hint_stream_names [OF 1 Cons.prems(2,3)] Cons.IH [OF 2 Cons.prems(2)]
  show ?case by simp
qed

lemma refresh_hint_names:
  assumes "refresh_hint w h st = Ok st'" and "no_excluded_names (devices_info st)"
  shows "no_excluded_names (devices_info st')"
  using assms
  by (auto simp: refresh_hint_def split: if_splits prod.splits option.splits
      dest: hint_streams_names)

lemma refresh_hints_names:
  assumes "refresh_hints w hs st = Ok st'" and "no_excluded_names (devices_info st)"
  shows "no_excluded_names (devices_info st')"
  using assms
proof (induction hs arbitrary: st)
  case Nil
  then show ?case by simp
next
  case (Cons h hs)
  from Cons.prems(1) obtain st1 where
    1: "refresh_hint w h st = Ok st1" and 2: "refresh_hints w hs st1 = Ok st'"
    by (auto dest: and_then_Ok)
  from Cons.IH [OF 2 refresh_hint_names [OF 1 Cons.prems(2)]] show ?case .
qed

lemma new_pass_names: "no_excluded_names (devices_info (new_pass w))"
  by (simp add: new_pass_def no_excluded_names_def)

lemma raw_extension_refl: "raw_extension info info"
  by (simp add: raw_extension_def)

lemma raw_extension_trans:
  assumes "raw_extension a b" and "raw_extension b c"
  shows "raw_extension a c"
proof -
  from assms(1) obtain xs ys where
    1: "output_devices b = output_devices a @ xs" "input_devices b = input_devices a @ ys"
       "list_all (\<lambda>d. is_raw d \<and> \<not> hint_is_excluded (name d)) xs"
       "list_all (\<lambda>d. is_raw d \<and> \<not> hint_is_excluded (name d)) ys"
       "default_output_index b = default_output_index a"
       "default_input_index b = default_input_index a"
    unfolding raw_extension_def by blast
  from assms(2) obtain xs' ys' where
    2: "output_devices c = output_devices b @ xs'" "input_devices c = input_devices b @ ys'"
       "list_all (\<lambda>d. is_raw d \<and> \<not> hint_is_excluded (name d)) xs'"
       "list_all (\<lambda>d. is_raw d \<and> \<not> hint_is_excluded (name d)) ys'"
       "default_output_index c = default_output_index b"
       "default_input_index c = default_input_index b"
    unfolding raw_extension_def by blast
  show ?thesis
    unfolding raw_extension_def
    by (rule exI [of _ "xs @ xs'"], rule exI [of _ "ys @ ys'"]) (simp add: 1 2)
qed

lemma raw_extension_names:
  "raw_extension a b \<Longrightarrow> no_excluded_names a \<Longrightarrow> no_excluded_names b"
  by (auto simp: raw_extension_def no_excluded_names_def list_all_iff)

lemma raw_stream_extension:
  assumes "raw_stream w c card_name d stream st = Ok st'"
  shows "raw_extension (devices_info st) (devices_info st')"
proof -
  from raw_stream_Ok [OF assms] show ?thesis
  proof
    assume "st' = st" then show ?thesis by (simp add: raw_extension_refl)
  next
    assume "\<exists>dev. is_raw dev \<and>
        name dev = ''hw:'' @ decimal (card_index c) @ '','' @ decimal (device_index d) \<and>
        purpose dev = (case stream of SND_PCM_STREAM_PLAYBACK \<Rightarrow> SoundIoDevicePurposeOutput
                        | SND_PCM_STREAM_CAPTURE \<Rightarrow> SoundIoDevicePurposeInput) \<and>
        devices_info st' = append_device stream dev (devices_info st)"
    then obtain dev where dev: "is_raw dev"
      "name dev = ''hw:'' @ decimal (card_index c) @ '','' @ decimal (device_index d)"
      "devices_info st' = append_device stream dev (devices_info st)" by blast
    have ok: "\<not> hint_is_excluded (name dev)"
      unfolding dev(2) by (rule hw_name_not_excluded)
    show ?thesis
    proof (cases stream)
      case SND_PCM_STREAM_PLAYBACK
      then show ?thesis using dev(1,3) ok
        unfolding raw_extension_def
        by (intro exI [of _ "[dev]"] exI [of _ "[]"]) (simp add: append_device_def)
    next
      case SND_PCM_STREAM_CAPTURE
      then show ?thesis using dev(1,3) ok
        unfolding raw_extension_def
        by (intro exI [of _ "[]"] exI [of _ "[dev]"]) (simp add: append_device_def)
    qed
  qed
qed

lemma raw_streams_extension:
  assumes "raw_streams w c card_name d streams st = Ok st'"
  shows "raw_extension (devices_info st) (devices_info st')"
  using assms
proof (induction streams arbitrary: st)
  case Nil
  then show ?case by (simp add: raw_extension_refl)
next
  case (Cons s ss)
  then obtain st1 where
    a: "raw_stream w c card_name d s st = Ok st1" and
    b: "raw_streams w c card_name d ss st1 = Ok st'"
    by (auto dest: and_then_Ok)
  from raw_extension_trans [OF raw_stream_extension [OF a] Cons.IH [OF b]]
  show ?case .
qed

lemma card_devices_extension:
  assumes "card_devices w c card_name walk st = Ok st'"
  shows "raw_extension (devices_info st) (devices_info st')"
  using assms
proof (induction walk arbitrary: st)
  case Device_Next_Fails
  then show ?case by simp
next
  case Device_End
  then show ?case by (simp add: raw_extension_refl)
next
  case (Device_Next d rest)
  then obtain st1 where
    a: "raw_streams w c card_name d stream_types st = Ok st1" and
    b: "card_devices w c card_name rest st1 = Ok st'"
    by (auto dest: and_then_Ok)
  from raw_extension_trans [OF raw_streams_extension [OF a] Device_Next.IH [OF b]]
  show ?case .
qed

lemma raw_cards_extension:
  assumes "raw_cards w walk st = Ok st'"
  shows "raw_extension (devices_info st) (devices_info st')"
  using assms
proof (induction walk arbitrary: st)
  case Card_Next_Fails
  then show ?case by simp
next
  case Card_End
  then show ?case by (simp add: raw_extension_refl)
next
  case (Card_Next c rest)
  show ?case
  proof (cases "snd_ctl_open c")
    case Ctl_Opened
    with Card_Next.prems obtain card_name st1 where
      a: "card_devices w c card_name (snd_ctl_pcm_next_device c) st = Ok st1" and
      b: "raw_cards w rest st1 = Ok st'"
      by (auto split: option.splits dest: and_then_Ok)
    from raw_extension_trans [OF card_devices_extension [OF a] Card_Next.IH [OF b]]
    show ?thesis .
  next
    case Ctl_ENOENT
    with Card_Next.prems show ?thesis by (simp add: raw_extension_refl)
  next
    case Ctl_Error
    with Card_Next.prems show ?thesis by simp
  qed
qed

lemma refresh_devices_Ok:
  assumes "refresh_devices w sia = (Ok u, sia')"
  shows "\<exists>hints st st'. alloc_ok w 0 \<and> snd_device_name_hint w = Some hints \<and>
    refresh_hints w hints (new_pass w) = Ok st \<and>
    raw_cards w (snd_card_next w) st = Ok st' \<and>
    sia' = sia\<lparr>ready_devices_info := Some (devices_info st'), have_devices_flag := True,
               cond_signals := cond_signals sia + 1\<rparr>"
  using assms
  by (auto simp: refresh_devices_def
      split: if_splits option.splits outcome.splits card_walk.splits)

text \<open>
  Claim C4. After every pass that completes, neither list of the published inventory holds
  a descriptor named \<open>null\<close>, nor one whose name begins with \<open>sysdefault:\<close>, with
  \<open>front:\<close>, or with one of the six surround aliases.
\<close>

theorem published_names_not_excluded:
  assumes "refresh_devices w sia = (Ok (), sia')"
  shows "\<exists>info. ready_devices_info sia' = Some info \<and>
     (\<forall>d \<in> set (output_devices info) \<union> set (input_devices info).
        name d \<noteq> ''null'' \<and>
        \<not> prefix ''sysdefault:'' (name d) \<and>
        \<not> prefix ''front:'' (name d) \<and>
        \<not> prefix ''surround21:'' (name d) \<and>
        \<not> prefix ''surround40:'' (name d) \<and>
        \<not> prefix ''surround41:'' (name d) \<and>
        \<not> prefix ''surround50:'' (name d) \<and>
        \<not> prefix ''surround51:'' (name d) \<and>
        \<not> prefix ''surround71:'' (name d))"
proof -
  from refresh_devices_Ok [OF assms] obtain hints st st' where
    h: "refresh_hints w hints (new_pass w) = Ok st" and
    r: "raw_cards w (snd_card_next w) st = Ok st'" and
    s: "ready_devices_info sia' = Some (devices_info st')"
    by auto
  have "no_excluded_names (devices_info st)"
    by (rule refresh_hints_names [OF h new_pass_names])
  then have "no_excluded_names (devices_info st')"
    by (rule raw_extension_names [OF raw_cards_extension [OF r]])
  then have "\<forall>d \<in> set (output_devices (devices_info st')) \<union> set (input_devices (devices_info st')).
      \<not> hint_is_excluded (name d)"
    by (auto simp: no_excluded_names_def list_all_iff)
  then show ?thesis
    using s by (simp add: hint_is_excluded_def str_has_prefix_iff)
qed

section \<open>Failure and publication\<close>

text \<open>
  Whatever makes a pass fail, the exchange slot, the flag and the condition variable are
  as before: the block that publishes is reached by the successful path only.
\<close>

lemma refresh_devices_failure_keeps_backend:
  "fst (refresh_devices w sia) \<noteq> Ok () \<Longrightarrow> snd (refresh_devices w sia) = sia"
  by (auto simp: refresh_devices_def
      split: if_splits option.splits outcome.splits card_walk.splits)

lemma refresh_devices_success_publishes:
  "refresh_devices w sia = (Ok (), sia') \<Longrightarrow>
     have_devices_flag sia' \<and> ready_devices_info sia' \<noteq> None \<and>
     cond_signals sia' = cond_signals sia + 1"
  by (auto dest!: refresh_devices_Ok)

lemma hint_stream_Failed:
  "hint_stream w nm descr descr1 pb cap stream st = Failed e c \<Longrightarrow> c = Info_Destroyed"
  by (auto simp: hint_stream_def Let_def split: if_splits option.splits prod.splits)

lemma hint_streams_Failed:
  "hint_streams w nm descr descr1 pb cap streams st = Failed e c \<Longrightarrow> c = Info_Destroyed"
  by (induction streams arbitrary: st) (auto dest!: and_then_Failed dest: hint_stream_Failed)

lemma refresh_hint_Failed: "refresh_hint w h st = Failed e c \<Longrightarrow> c = Info_Destroyed"
  by (auto simp: refresh_hint_def split: if_splits option.splits prod.splits
      dest: hint_streams_Failed)

lemma refresh_hints_Failed: "refresh_hints w hs st = Failed e c \<Longrightarrow> c = Info_Destroyed"
  by (induction hs arbitrary: st) (auto dest!: and_then_Failed dest: refresh_hint_Failed)

lemma raw_stream_Failed:
  "raw_stream w c card_name d stream st = Failed e cl \<Longrightarrow> cl = Info_Destroyed"
  by (auto simp: raw_stream_def Let_def
      split: if_splits option.splits prod.splits pcm_info_answer.splits)

lemma raw_streams_Failed:
  "raw_streams w c card_name d streams st = Failed e cl \<Longrightarrow> cl = Info_Destroyed"
  by (induction streams arbitrary: st) (auto dest!: and_then_Failed dest: raw_stream_Failed)

lemma card_devices_Failed:
  "card_devices w c card_name walk st = Failed e cl \<Longrightarrow> cl = Info_Destroyed"
  by (induction walk arbitrary: st) (auto dest!: and_then_Failed dest: raw_streams_Failed)

lemma raw_cards_Failed: "raw_cards w walk st = Failed e cl \<Longrightarrow> cl = Info_Destroyed"
  by (induction walk arbitrary: st)
     (auto split: ctl_open_answer.splits option.splits
       dest!: and_then_Failed dest: card_devices_Failed)

text \<open>
  Every failing return but one is preceded by \<^verbatim>\<open>destroy(devices_info)\<close> (or has nothing
  to destroy). The exception is the failure of the first \<^verbatim>\<open>snd_card_next\<close>.
\<close>

lemma refresh_devices_not_destroyed:
  assumes "refresh_devices w sia = (Failed e Info_Not_Destroyed, sia')"
  shows "snd_card_next w = Card_Next_Fails \<and> e = SoundIoErrorSystemResources"
proof -
  from assms consider
    (first) "snd_card_next w = Card_Next_Fails" "e = SoundIoErrorSystemResources"
    | (hints) hs where "refresh_hints w hs (new_pass w) = Failed e Info_Not_Destroyed"
    | (cards) st where "raw_cards w (snd_card_next w) st = Failed e Info_Not_Destroyed"
    by (auto simp del: raw_cards.simps simp: refresh_devices_def
        split: if_splits option.splits outcome.splits card_walk.splits)
  then show ?thesis
  proof cases
    case first
    then show ?thesis by simp
  next
    case hints
    from refresh_hints_Failed [OF this] show ?thesis by simp
  next
    case cards
    from raw_cards_Failed [OF this] show ?thesis by simp
  qed
qed

text \<open>
  Claim C2. The claim asks that a pass failing with a resource error publish nothing and
  discard its partial state. Nothing is published on any failure
  (\<open>refresh_devices_failure_keeps_backend\<close>), but when the first \<^verbatim>\<open>snd_card_next\<close>
  fails (line 375) the code returns \<^verbatim>\<open>SoundIoErrorSystemResources\<close> without
  \<^verbatim>\<open>destroy(devices_info)\<close>: the inventory built from the hints is neither released nor
  published. The same call at line 474 destroys it before returning.
\<close>

theorem first_card_next_failure_keeps_info:
  "refresh_devices (plain_world [] Card_Next_Fails) sia =
    (Failed SoundIoErrorSystemResources Info_Not_Destroyed, sia)"
  by (simp add: refresh_devices_def plain_world_def)

section \<open>Direction hints and suppressed captures\<close>

text \<open>
  Claim C10, amended. If the pass reaches a hint (the hints before it were processed
  without failure) that has a name, not on the exclusion list, and a description, and
  whose IOID is present but is neither \<open>Input\<close> nor \<open>Output\<close>, then
  \<open>refresh_devices\<close> panics with \<open>invalid io hint value\<close>; it returns no error code
  and creates no descriptor for that hint. (A hint without description never gets that
  far: \<open>refresh_hint_without_description\<close>.)
\<close>

theorem invalid_ioid_panics:
  assumes "alloc_ok w 0"
    and "snd_device_name_hint w = Some (before @ h # after)"
    and "refresh_hints w before (new_pass w) = Ok st"
    and "NAME h = Some nm" and "\<not> hint_is_excluded nm" and "DESC h = Some d"
    and "IOID h = Some io" and "io \<noteq> ''Input''" and "io \<noteq> ''Output''"
  shows "refresh_devices w sia = (Panic ''invalid io hint value'', sia)"
proof -
  have "refresh_hint w h st = Panic ''invalid io hint value''"
    using assms(4-9) by (simp add: refresh_hint_def split: prod.splits)
  then have "refresh_hints w (before @ h # after) (new_pass w) = Panic ''invalid io hint value''"
    using assms(3) by (simp add: refresh_hints_append)
  then show ?thesis using assms(1,2) by (simp add: refresh_devices_def)
qed

text \<open>
  Claim C3, amended. When the text after the first newline of a hint's description
  contains \<open>Output\<close> or \<open>output\<close>, in one of these two spellings, processing the hint
  creates no capture descriptor: the input list is as before.
\<close>

theorem output_detail_suppresses_capture:
  assumes "DESC h = Some (short @ [CHR 0x0A] @ detail)" and "CHR 0x0A \<notin> set short"
    and "sublist ''Output'' detail \<or> sublist ''output'' detail"
    and "refresh_hint w h st = Ok st'"
  shows "input_devices (devices_info st') = input_devices (devices_info st)"
proof -
  from assms(4) obtain nm where nm: "NAME h = Some nm"
    by (cases "NAME h") (simp_all add: refresh_hint_def)
  show ?thesis
  proof (cases "hint_is_excluded nm")
    case True
    with assms(4) nm show ?thesis by (simp add: refresh_hint_def)
  next
    case False
    have p: "str_partition_on_char (short @ [CHR 0x0A] @ detail) (CHR 0x0A) = (short, Some detail)"
      using assms(2) by (simp add: str_partition_on_char_first)
    have sup: "capture_is_suppressed (Some detail)"
      using assms(3) by (simp add: capture_is_suppressed_def strstr_iff)
    from assms(4) False nm assms(1) p obtain pb cap where
      "hint_streams w nm short (Some detail) pb cap stream_types st = Ok st'"
      by (auto simp: refresh_hint_def split: option.splits if_splits)
    from hint_streams_both [OF this] obtain s1 where
      1: "hint_stream w nm short (Some detail) pb cap SND_PCM_STREAM_PLAYBACK st = Ok s1" and
      2: "hint_stream w nm short (Some detail) pb cap SND_PCM_STREAM_CAPTURE s1 = Ok st'"
      by blast
    from hint_stream_playback [OF 1]
    have a: "input_devices (devices_info s1) = input_devices (devices_info st)" by auto
    from hint_stream_capture [OF 2] sup have "st' = s1" by auto
    with a show ?thesis by simp
  qed
qed

section \<open>The default marker\<close>

lemma scenario_pass:
  assumes hints: "snd_device_name_hint w = Some [h1, h2, h3]"
    and n1: "NAME h1 = Some ''default:CARD''" and io: "IOID h1 = None"
    and n2: "NAME h2 = Some ''null''" and n3: "NAME h3 = Some ''sysdefault:CARD''"
    and d: "\<forall>d1. DESC h1 = Some d1 \<longrightarrow>
        \<not> capture_is_suppressed (snd (str_partition_on_char d1 (CHR 0x0A)))"
    and ok: "refresh_devices w sia = (Ok (), sia')"
  shows "\<exists>info d_out d_in raw_out raw_in.
     ready_devices_info sia' = Some info \<and>
     output_devices info = d_out # raw_out \<and> input_devices info = d_in # raw_in \<and>
     name d_out = ''default:CARD'' \<and> \<not> is_raw d_out \<and>
     purpose d_out = SoundIoDevicePurposeOutput \<and>
     name d_in = ''default:CARD'' \<and> \<not> is_raw d_in \<and>
     purpose d_in = SoundIoDevicePurposeInput \<and>
     list_all is_raw raw_out \<and> list_all is_raw raw_in \<and>
     default_output_index info = 0 \<and> default_input_index info = 0"
proof -
  from refresh_devices_Ok [OF ok] hints obtain st st' where
    h: "refresh_hints w [h1, h2, h3] (new_pass w) = Ok st" and
    r: "raw_cards w (snd_card_next w) st = Ok st'" and
    s: "ready_devices_info sia' = Some (devices_info st')"
    by auto
  have e2: "refresh_hint w h2 x = Ok x" for x
    by (rule refresh_hint_excluded [OF n2]) (simp add: hint_is_excluded_def)
  have e3: "refresh_hint w h3 x = Ok x" for x
    by (rule refresh_hint_excluded [OF n3]) (simp add: hint_is_excluded_def str_has_prefix_def)
  from h have 1: "refresh_hint w h1 (new_pass w) = Ok st"
    by (cases "refresh_hint w h1 (new_pass w)") (simp_all add: e2 e3)
  from 1 n1 obtain d1 where d1: "DESC h1 = Some d1"
    by (cases "DESC h1") (simp_all add: refresh_hint_def default_card_not_excluded)
  obtain descr descr1 where p: "str_partition_on_char d1 (CHR 0x0A) = (descr, descr1)"
    by (cases "str_partition_on_char d1 (CHR 0x0A)") blast
  with d d1 have ns: "\<not> capture_is_suppressed descr1" by simp
  from 1 p d1 have "hint_streams w ''default:CARD'' descr descr1 True True stream_types (new_pass w) = Ok st"
    by (simp add: refresh_hint_def n1 io default_card_not_excluded)
  from hint_streams_both [OF this] obtain s1 where
    a: "hint_stream w ''default:CARD'' descr descr1 True True SND_PCM_STREAM_PLAYBACK (new_pass w) = Ok s1" and
    b: "hint_stream w ''default:CARD'' descr descr1 True True SND_PCM_STREAM_CAPTURE s1 = Ok st"
    by blast
  have pre: "str_has_prefix ''default:CARD'' ''default:''"
    by (simp add: str_has_prefix_def)
  from hint_stream_playback [OF a] pre obtain d_out where
    o: "name d_out = ''default:CARD''" "\<not> is_raw d_out" "purpose d_out = SoundIoDevicePurposeOutput"
      "output_devices (devices_info s1) = [d_out]" "input_devices (devices_info s1) = []"
      "default_output_index (devices_info s1) = 0"
    by (auto simp: new_pass_def)
  from hint_stream_capture [OF b] pre ns obtain d_in where
    i: "name d_in = ''default:CARD''" "\<not> is_raw d_in" "purpose d_in = SoundIoDevicePurposeInput"
      "input_devices (devices_info st) = [d_in]" "output_devices (devices_info st) = [d_out]"
      "default_output_index (devices_info st) = 0" "default_input_index (devices_info st) = 0"
    using o by auto
  from raw_cards_extension [OF r] obtain xs ys where
    x: "output_devices (devices_info st') = d_out # xs" "input_devices (devices_info st') = d_in # ys"
       "list_all is_raw xs" "list_all is_raw ys"
       "default_output_index (devices_info st') = 0" "default_input_index (devices_info st') = 0"
    using i by (auto simp: raw_extension_def list_all_iff)
  show ?thesis
    using s o(1-3) i(1-3) x by blast
qed

lemma default_marker_playback:
  assumes "str_has_prefix nm ''default:''"
    and "hint_stream w nm descr descr1 True cap SND_PCM_STREAM_PLAYBACK st = Ok st1"
  shows "\<exists>d. name d = nm \<and>
     output_devices (devices_info st1) = output_devices (devices_info st) @ [d] \<and>
     default_output_index (devices_info st1) = int (length (output_devices (devices_info st))) \<and>
     output_devices (devices_info st1) ! nat (default_output_index (devices_info st1)) = d"
  using hint_stream_playback [OF assms(2)] assms(1) by auto

lemma default_marker_capture:
  assumes "str_has_prefix nm ''default:''" and "\<not> capture_is_suppressed descr1"
    and "hint_stream w nm descr descr1 pb True SND_PCM_STREAM_CAPTURE st = Ok st1"
  shows "\<exists>d. name d = nm \<and>
     input_devices (devices_info st1) = input_devices (devices_info st) @ [d] \<and>
     default_input_index (devices_info st1) = int (length (input_devices (devices_info st))) \<and>
     input_devices (devices_info st1) ! nat (default_input_index (devices_info st1)) = d"
  using hint_stream_capture [OF assms(3)] assms(1,2) by auto

text \<open>
  Claim C5, amended. First part: when the hints are \<open>default:CARD\<close>, \<open>null\<close> and
  \<open>sysdefault:CARD\<close>, the first without IOID and with a description whose text after the
  first newline (if any) has neither \<open>Output\<close> nor \<open>output\<close>, a pass that completes
  publishes exactly two logical descriptors, one Output and one Input, both named
  \<open>default:CARD\<close>, at position 0 of their lists, and both default indices are 0; every
  other descriptor is raw. Second and third part: a hint whose name begins with
  \<open>default:\<close> sets the default index of the list to the position at which its descriptor
  is appended.
\<close>

theorem default_marker_scenario:
  "(snd_device_name_hint w = Some [h1, h2, h3] \<and>
    NAME h1 = Some ''default:CARD'' \<and> IOID h1 = None \<and>
    NAME h2 = Some ''null'' \<and> NAME h3 = Some ''sysdefault:CARD'' \<and>
    (\<forall>d1. DESC h1 = Some d1 \<longrightarrow>
       \<not> capture_is_suppressed (snd (str_partition_on_char d1 (CHR 0x0A)))) \<and>
    refresh_devices w sia = (Ok (), sia') \<longrightarrow>
    (\<exists>info d_out d_in raw_out raw_in.
       ready_devices_info sia' = Some info \<and>
       output_devices info = d_out # raw_out \<and> input_devices info = d_in # raw_in \<and>
       name d_out = ''default:CARD'' \<and> \<not> is_raw d_out \<and>
       purpose d_out = SoundIoDevicePurposeOutput \<and>
       name d_in = ''default:CARD'' \<and> \<not> is_raw d_in \<and>
       purpose d_in = SoundIoDevicePurposeInput \<and>
       list_all is_raw raw_out \<and> list_all is_raw raw_in \<and>
       default_output_index info = 0 \<and> default_input_index info = 0)) \<and>
   (str_has_prefix nm ''default:'' \<and>
    hint_stream w nm descr descr1 True cap SND_PCM_STREAM_PLAYBACK st = Ok st1 \<longrightarrow>
    (\<exists>d. name d = nm \<and>
       output_devices (devices_info st1) = output_devices (devices_info st) @ [d] \<and>
       default_output_index (devices_info st1) = int (length (output_devices (devices_info st))) \<and>
       output_devices (devices_info st1) ! nat (default_output_index (devices_info st1)) = d)) \<and>
   (str_has_prefix nm ''default:'' \<and> \<not> capture_is_suppressed descr1 \<and>
    hint_stream w nm descr descr1 pb True SND_PCM_STREAM_CAPTURE st = Ok st2 \<longrightarrow>
    (\<exists>d. name d = nm \<and>
       input_devices (devices_info st2) = input_devices (devices_info st) @ [d] \<and>
       default_input_index (devices_info st2) = int (length (input_devices (devices_info st))) \<and>
       input_devices (devices_info st2) ! nat (default_input_index (devices_info st2)) = d))"
proof (intro conjI impI)
  assume "snd_device_name_hint w = Some [h1, h2, h3] \<and>
    NAME h1 = Some ''default:CARD'' \<and> IOID h1 = None \<and>
    NAME h2 = Some ''null'' \<and> NAME h3 = Some ''sysdefault:CARD'' \<and>
    (\<forall>d1. DESC h1 = Some d1 \<longrightarrow>
       \<not> capture_is_suppressed (snd (str_partition_on_char d1 (CHR 0x0A)))) \<and>
    refresh_devices w sia = (Ok (), sia')"
  then show "\<exists>info d_out d_in raw_out raw_in.
       ready_devices_info sia' = Some info \<and>
       output_devices info = d_out # raw_out \<and> input_devices info = d_in # raw_in \<and>
       name d_out = ''default:CARD'' \<and> \<not> is_raw d_out \<and>
       purpose d_out = SoundIoDevicePurposeOutput \<and>
       name d_in = ''default:CARD'' \<and> \<not> is_raw d_in \<and>
       purpose d_in = SoundIoDevicePurposeInput \<and>
       list_all is_raw raw_out \<and> list_all is_raw raw_in \<and>
       default_output_index info = 0 \<and> default_input_index info = 0"
    using scenario_pass [of w h1 h2 h3 sia sia'] by blast
next
  assume "str_has_prefix nm ''default:'' \<and>
    hint_stream w nm descr descr1 True cap SND_PCM_STREAM_PLAYBACK st = Ok st1"
  then show "\<exists>d. name d = nm \<and>
       output_devices (devices_info st1) = output_devices (devices_info st) @ [d] \<and>
       default_output_index (devices_info st1) = int (length (output_devices (devices_info st))) \<and>
       output_devices (devices_info st1) ! nat (default_output_index (devices_info st1)) = d"
    using default_marker_playback [of nm w descr descr1 cap st st1] by blast
next
  assume "str_has_prefix nm ''default:'' \<and> \<not> capture_is_suppressed descr1 \<and>
    hint_stream w nm descr descr1 pb True SND_PCM_STREAM_CAPTURE st = Ok st2"
  then show "\<exists>d. name d = nm \<and>
       input_devices (devices_info st2) = input_devices (devices_info st) @ [d] \<and>
       default_input_index (devices_info st2) = int (length (input_devices (devices_info st))) \<and>
       input_devices (devices_info st2) ! nat (default_input_index (devices_info st2)) = d"
    using default_marker_capture [of nm descr1 w descr pb st st2] by blast
qed

section \<open>The watcher's filter and batching\<close>

lemma name_at_pcm:
  "(name_at event 0 = CHR ''p'' \<and> name_at event (Suc 0) = CHR ''c'' \<and> name_at event 2 = CHR ''m'')
    \<longleftrightarrow> prefix ''pcm'' (event_name event)"
proof (cases "event_name event")
  case Nil
  then show ?thesis by (simp add: name_at_def)
next
  case (Cons a as)
  note 1 = this
  show ?thesis
  proof (cases as)
    case Nil
    with 1 show ?thesis by (simp add: name_at_def)
  next
    case (Cons b bs)
    note 2 = this
    show ?thesis
    proof (cases bs)
      case Nil
      with 1 2 show ?thesis by (simp add: name_at_def)
    next
      case (Cons c cs)
      with 1 2 show ?thesis by (auto simp: name_at_def)
    qed
  qed
qed

lemma len_long_enough: "(\<not> (l = 0 \<or> l < 8)) \<longleftrightarrow> 8 \<le> unat (l :: 32 word)"
  by (auto simp: word_less_nat_alt not_less)

lemma event_requests_rescan_iff: "event_requests_rescan event = qualifying_change event"
  unfolding event_requests_rescan_def qualifying_change_def
  using name_at_pcm [of event] len_long_enough [of "event_len event"]
  by auto

lemma scan_events_iff:
  "scan_events events got = (got \<or> (\<exists>e \<in> set events. event_requests_rescan e))"
  by (induction events) auto

lemma read_notify_quiet:
  assumes "\<forall>buf \<in> set q. \<forall>e \<in> set buf. \<not> event_requests_rescan e"
  shows "fst (read_notify q False) = False"
  using assms by (induction q) (auto simp: scan_events_iff)

lemma read_notify_drains:
  assumes "\<forall>buf \<in> set q. buf \<noteq> []"
  shows "read_notify q got =
    (got \<or> (\<exists>buf \<in> set q. \<exists>e \<in> set buf. event_requests_rescan e), [])"
  using assms by (induction q arbitrary: got) (auto simp: scan_events_iff)

lemma device_thread_turn_passes:
  "(passes (snd (device_thread_turn w p wt)) = passes wt \<and>
    backend (snd (device_thread_turn w p wt)) = backend wt) \<or>
   (passes (snd (device_thread_turn w p wt)) = passes wt + 1 \<and>
    backend (snd (device_thread_turn w p wt)) = snd (refresh_devices w (backend wt)))"
  by (auto simp: device_thread_turn_def Let_def
      split: if_splits prod.splits outcome.splits)

lemma device_thread_turn_quiet:
  assumes "\<forall>buf \<in> set (notify_fd wt). \<forall>e \<in> set buf. \<not> event_requests_rescan e"
    and "revents_pipe p AND POLLIN = 0"
  shows "passes (snd (device_thread_turn w p wt)) = passes wt"
    and "backend (snd (device_thread_turn w p wt)) = backend wt"
  using read_notify_quiet [OF assms(1)] assms(2)
  by (auto simp: device_thread_turn_def Let_def
      split: if_splits prod.splits outcome.splits)

lemma device_thread_turn_burst:
  assumes "abort_flag wt" and "0 < poll_num p" and "revents_notify p AND POLLIN \<noteq> 0"
    and "\<forall>buf \<in> set (notify_fd wt). buf \<noteq> []"
    and "\<exists>buf \<in> set (notify_fd wt). \<exists>e \<in> set buf. event_requests_rescan e"
  shows "passes (snd (device_thread_turn w p wt)) = passes wt + 1"
    and "notify_fd (snd (device_thread_turn w p wt)) = []"
    and "backend (snd (device_thread_turn w p wt)) = snd (refresh_devices w (backend wt))"
  using assms(1,2,3,5) read_notify_drains [OF assms(4), of False]
  by (auto simp: device_thread_turn_def Let_def
      split: if_splits prod.splits outcome.splits)

text \<open>
  Claim C6. The four tests of the watcher accept a record exactly when it is a qualifying
  change in the words of the specification; and when none of the pending records
  qualifies (and the wake pipe is silent) the turn of the loop runs no pass and leaves the
  backend alone.
\<close>

theorem qualifying_change_filter:
  "event_requests_rescan event = qualifying_change event \<and>
   ((\<forall>buf \<in> set (notify_fd wt). \<forall>e \<in> set buf. \<not> qualifying_change e) \<and>
    revents_pipe p AND POLLIN = 0 \<longrightarrow>
    passes (snd (device_thread_turn w p wt)) = passes wt \<and>
    backend (snd (device_thread_turn w p wt)) = backend wt)"
  using device_thread_turn_quiet [of wt p w]
  by (simp add: event_requests_rescan_iff)

text \<open>
  Claim C7. One turn of the watcher's loop calls \<open>refresh_devices\<close> at most once: either
  the counter of passes and the backend are as before, or the counter is one more and the
  backend is what one call of \<open>refresh_devices\<close> makes of it. When the watcher wakes on a
  readable inotify descriptor whose pending reads hold at least one qualifying record, it
  empties the descriptor and runs exactly one pass, on the backend as it was; in
  particular for two qualifying records, in one buffer or in two.
\<close>

theorem one_pass_per_wake:
  "passes (snd (device_thread_turn w p wt)) \<le> passes wt + 1 \<and>
   ((passes (snd (device_thread_turn w p wt)) = passes wt \<and>
     backend (snd (device_thread_turn w p wt)) = backend wt) \<or>
    (passes (snd (device_thread_turn w p wt)) = passes wt + 1 \<and>
     backend (snd (device_thread_turn w p wt)) = snd (refresh_devices w (backend wt)))) \<and>
   (abort_flag wt \<and> 0 < poll_num p \<and> revents_notify p AND POLLIN \<noteq> 0 \<and>
    (\<forall>buf \<in> set (notify_fd wt). buf \<noteq> []) \<and>
    (\<exists>buf \<in> set (notify_fd wt). \<exists>e \<in> set buf. event_requests_rescan e) \<longrightarrow>
    passes (snd (device_thread_turn w p wt)) = passes wt + 1 \<and>
    backend (snd (device_thread_turn w p wt)) = snd (refresh_devices w (backend wt)) \<and>
    notify_fd (snd (device_thread_turn w p wt)) = []) \<and>
   (abort_flag wt \<and> 0 < poll_num p \<and> revents_notify p AND POLLIN \<noteq> 0 \<and>
    event_requests_rescan e1 \<and> event_requests_rescan e2 \<and>
    (notify_fd wt = [[e1, e2]] \<or> notify_fd wt = [[e1], [e2]]) \<longrightarrow>
    passes (snd (device_thread_turn w p wt)) = passes wt + 1 \<and>
    backend (snd (device_thread_turn w p wt)) = snd (refresh_devices w (backend wt)) \<and>
    notify_fd (snd (device_thread_turn w p wt)) = [])"
proof (intro conjI impI)
  show "passes (snd (device_thread_turn w p wt)) \<le> passes wt + 1"
    using device_thread_turn_passes [of w p wt] by auto
next
  show "(passes (snd (device_thread_turn w p wt)) = passes wt \<and>
     backend (snd (device_thread_turn w p wt)) = backend wt) \<or>
    (passes (snd (device_thread_turn w p wt)) = passes wt + 1 \<and>
     backend (snd (device_thread_turn w p wt)) = snd (refresh_devices w (backend wt)))"
    by (rule device_thread_turn_passes)
next
  assume a: "abort_flag wt \<and> 0 < poll_num p \<and> revents_notify p AND POLLIN \<noteq> 0 \<and>
    (\<forall>buf \<in> set (notify_fd wt). buf \<noteq> []) \<and>
    (\<exists>buf \<in> set (notify_fd wt). \<exists>e \<in> set buf. event_requests_rescan e)"
  then show "passes (snd (device_thread_turn w p wt)) = passes wt + 1"
    using device_thread_turn_burst(1) [of wt p w] by blast
  from a show "backend (snd (device_thread_turn w p wt)) = snd (refresh_devices w (backend wt))"
    using device_thread_turn_burst(3) [of wt p w] by blast
  from a show "notify_fd (snd (device_thread_turn w p wt)) = []"
    using device_thread_turn_burst(2) [of wt p w] by blast
next
  assume a: "abort_flag wt \<and> 0 < poll_num p \<and> revents_notify p AND POLLIN \<noteq> 0 \<and>
    event_requests_rescan e1 \<and> event_requests_rescan e2 \<and>
    (notify_fd wt = [[e1, e2]] \<or> notify_fd wt = [[e1], [e2]])"
  then have b: "\<forall>buf \<in> set (notify_fd wt). buf \<noteq> []"
    and c: "\<exists>buf \<in> set (notify_fd wt). \<exists>e \<in> set buf. event_requests_rescan e"
    by auto
  from a b c show "passes (snd (device_thread_turn w p wt)) = passes wt + 1"
    using device_thread_turn_burst(1) [of wt p w] by blast
  from a b c show "backend (snd (device_thread_turn w p wt)) =
      snd (refresh_devices w (backend wt))"
    using device_thread_turn_burst(3) [of wt p w] by blast
  from a b c show "notify_fd (snd (device_thread_turn w p wt)) = []"
    using device_thread_turn_burst(2) [of wt p w] by blast
qed

section \<open>Flushing\<close>

lemma block_until_have_devices_flag:
  "have_devices_flag sia \<Longrightarrow> block_until_have_devices sia = Some ()"
  by (simp add: block_until_have_devices.simps)

lemma block_until_have_devices_returns:
  assumes "block_until_have_devices sia = Some u"
  shows "have_devices_flag sia"
  by (rule block_until_have_devices.raw_induct
        [where P = "\<lambda>x y. have_devices_flag x", OF _ assms])
     (simp split: if_splits)

lemma block_until_have_devices_blocks:
  assumes "\<not> have_devices_flag sia"
  shows "block_until_have_devices sia = None"
proof (cases "block_until_have_devices sia")
  case None
  then show ?thesis .
next
  case (Some u)
  from block_until_have_devices_returns [OF Some] assms show ?thesis by simp
qed

lemma flush_events_cases:
  assumes "flush_events s = Some s1"
  shows "have_devices_flag (backend_data s)"
    and "ready_devices_info (backend_data s1) = None"
    and "have_devices_flag (backend_data s1)"
    and "on_devices_change_calls s1 =
      on_devices_change_calls s + (if ready_devices_info (backend_data s) = None then 0 else 1)"
    and "ready_devices_info (backend_data s) = None \<Longrightarrow> s1 = s"
  using assms
  by (auto simp: flush_events_def split: option.splits dest: block_until_have_devices_returns)

lemma flush_events_idle:
  assumes "have_devices_flag (backend_data s)" and "ready_devices_info (backend_data s) = None"
  shows "flush_events s = Some s"
  using assms by (simp add: flush_events_def block_until_have_devices_flag)

lemma flush_events_returns:
  assumes "have_devices_flag (backend_data s)"
  shows "\<exists>s1. flush_events s = Some s1"
  using assms by (simp add: flush_events_def block_until_have_devices_flag split: option.splits)

text \<open>
  Claim C8. Of two calls of \<open>flush_events\<close> with no publication in between the second
  changes nothing, so the callback runs at most once in total; a call that finds the slot
  empty returns the state it was given; and once something has been published the call
  returns.
\<close>

theorem flush_events_twice:
  "(flush_events s = Some s1 \<and> flush_events s1 = Some s2 \<longrightarrow>
      s2 = s1 \<and> on_devices_change_calls s2 \<le> on_devices_change_calls s + 1) \<and>
   (have_devices_flag (backend_data s) \<and> ready_devices_info (backend_data s) = None \<longrightarrow>
      flush_events s = Some s) \<and>
   (have_devices_flag (backend_data s) \<longrightarrow> (\<exists>s'. flush_events s = Some s'))"
proof (intro conjI impI)
  assume a: "flush_events s = Some s1 \<and> flush_events s1 = Some s2"
  then have 1: "flush_events s = Some s1" and 2: "flush_events s1 = Some s2" by simp_all
  from flush_events_cases(5) [OF 2 flush_events_cases(2) [OF 1]]
  show "s2 = s1" .
  then show "on_devices_change_calls s2 \<le> on_devices_change_calls s + 1"
    using flush_events_cases(4) [OF 1] by simp
next
  assume "have_devices_flag (backend_data s) \<and> ready_devices_info (backend_data s) = None"
  then show "flush_events s = Some s" by (simp add: flush_events_idle)
next
  assume "have_devices_flag (backend_data s)"
  then show "\<exists>s'. flush_events s = Some s'" by (rule flush_events_returns)
qed

section \<open>The functions on concrete inputs\<close>

text \<open>The definitions to unfold when a concrete input is evaluated.\<close>

lemmas world_defs =
  plain_pcm_def zero_device_def unset_devices_info_def plain_params_def plain_world_def
  idle_backend_def no_layout_def probed_def

lemmas model_defs =
  refresh_devices_def new_pass_def refresh_hint_def hint_is_excluded_def str_has_prefix_def
  stream_types_def hint_stream_def raw_stream_def capture_is_suppressed_def probe_device_def
  handle_channel_maps_def get_channel_layout_def from_alsa_chmap_pos_def append_device_def
  MAX_SAMPLE_RATE_def decimal.simps Let_def

lemma one_card_pass:
  "refresh_devices one_card_world idle_backend =
    (Ok (), \<lparr>ready_devices_info = Some one_card_inventory, have_devices_flag = True,
              cond_signals = 1\<rparr>)"
  by (simp add: world_defs model_defs scenario_hints_def stereo_def surround_a_def surround_b_def
      playback_only_device_def card0_def one_card_world_def surround_layout_def
      one_card_inventory_def)

lemma uppercase_pass:
  "refresh_devices (plain_world [uppercase_hint] Card_End) idle_backend =
    (Ok (), \<lparr>ready_devices_info = Some uppercase_inventory, have_devices_flag = True,
              cond_signals = 1\<rparr>)"
  by (simp add: world_defs model_defs uppercase_hint_def uppercase_inventory_def)

lemma lowercase_step:
  "refresh_hint (plain_world [lowercase_hint] Card_End) lowercase_hint
     (new_pass (plain_world [lowercase_hint] Card_End)) = Ok lowercase_pass"
  by (simp add: world_defs model_defs lowercase_hint_def lowercase_pass_def)

lemma output_detail_pass:
  "refresh_devices (plain_world output_detail_hints Card_End) idle_backend =
    (Ok (), \<lparr>ready_devices_info = Some output_detail_inventory, have_devices_flag = True,
              cond_signals = 1\<rparr>)"
  by (simp add: world_defs model_defs output_detail_hints_def output_detail_inventory_def)

lemma null_duplex_pass:
  "fst (refresh_devices (plain_world [null_duplex_hint] Card_End) idle_backend) = Ok ()"
  by (simp add: world_defs model_defs null_duplex_hint_def)

lemma uppercase_mentions: "mentions_output_any_case ''HDMI OUTPUT''"
  by (simp add: mentions_output_any_case_def lower_case_def strstr_iff [symmetric]
      str_has_prefix_def)

lemma scenario_head_step:
  "refresh_hints duplex_world scenario_hints (new_pass duplex_world) = Ok scenario_head_pass"
  by (simp add: duplex_world_def scenario_head_pass_def scenario_hints_def world_defs
      model_defs)

lemma bare_duplex_crashes:
  "refresh_devices (plain_world [bare_duplex_hint] Card_End) idle_backend =
    (Null_Dereference, idle_backend)"
  by (simp add: world_defs model_defs bare_duplex_hint_def)

lemma scenario_hints_shape:
  "snd_device_name_hint one_card_world = Some [scenario_hints ! 0, scenario_hints ! 1, scenario_hints ! 2]"
  "NAME (scenario_hints ! 0) = Some ''default:CARD''" "IOID (scenario_hints ! 0) = None"
  "NAME (scenario_hints ! 1) = Some ''null''"
  "NAME (scenario_hints ! 2) = Some ''sysdefault:CARD''"
  "DESC (scenario_hints ! 0) = Some ''Default Audio Device''"
  "\<not> capture_is_suppressed (snd (str_partition_on_char ''Default Audio Device'' (CHR 0x0A)))"
  by (simp_all add: one_card_world_def plain_world_def scenario_hints_def
      capture_is_suppressed_def)

lemma example_events:
  "event_requests_rescan pcm_created" "event_requests_rescan pcm_deleted"
  "\<not> event_requests_rescan control_created"
  by (simp_all add: event_requests_rescan_def pcm_created_def pcm_deleted_def control_created_def
      IN_CREATE_def IN_DELETE_def IN_ISDIR_def name_at_def)

text \<open>
  C9 on the candidates stereo, 5.1, 5.1 (side): the first of the two six-channel maps is
  taken.
\<close>

theorem richest_first_seen_chmap_witness:
  "[stereo, surround_a, surround_b] \<noteq> [] \<and>
   best_chmap [stereo, surround_a, surround_b] None = Some (query_map surround_a) \<and>
   (\<exists>i<length [stereo, surround_a, surround_b].
      best_chmap [stereo, surround_a, surround_b] None =
        Some (query_map ([stereo, surround_a, surround_b] ! i)) \<and>
      handle_channel_maps plain_params zero_device (Some [stereo, surround_a, surround_b]) =
        Some (get_channel_layout plain_params zero_device
                (query_map ([stereo, surround_a, surround_b] ! i))))"
proof -
  have n: "[stereo, surround_a, surround_b] \<noteq> []" by simp
  have b: "best_chmap [stereo, surround_a, surround_b] None = Some (query_map surround_a)"
    by (simp add: stereo_def surround_a_def surround_b_def)
  from richest_first_seen_chmap [OF n, of plain_params zero_device]
  show ?thesis using n b by blast
qed

text \<open>
  C4 on the world with the three scenario hints and one playback-only card: the pass
  publishes \<open>default:CARD\<close> twice and \<open>hw:0,0\<close> once.
\<close>

theorem published_names_not_excluded_witness:
  "refresh_devices one_card_world idle_backend =
     (Ok (), \<lparr>ready_devices_info = Some one_card_inventory, have_devices_flag = True,
               cond_signals = 1\<rparr>) \<and>
   map name (output_devices one_card_inventory) = [''default:CARD'', ''hw:0,0''] \<and>
   map name (input_devices one_card_inventory) = [''default:CARD''] \<and>
   (\<exists>info. Some one_card_inventory = Some info \<and>
      list_all (\<lambda>d. name d \<noteq> ''null'' \<and> \<not> prefix ''sysdefault:'' (name d))
        (output_devices info @ input_devices info))"
proof -
  from published_names_not_excluded [OF one_card_pass]
  have "list_all (\<lambda>d. name d \<noteq> ''null'' \<and> \<not> prefix ''sysdefault:'' (name d))
        (output_devices one_card_inventory @ input_devices one_card_inventory)"
    by (simp add: list_all_iff)
  then show ?thesis using one_card_pass
    by (simp add: one_card_inventory_def probed_def)
qed

text \<open>
  C3 as stated fails: the detail text \<open>HDMI OUTPUT\<close> contains the word in capitals, and
  the pass creates the Input descriptor all the same.
\<close>

theorem uppercase_output_keeps_capture:
  "DESC uppercase_hint = Some (''HDA Intel PCH'' @ [CHR 0x0A] @ ''HDMI OUTPUT'') \<and>
   str_partition_on_char (''HDA Intel PCH'' @ [CHR 0x0A] @ ''HDMI OUTPUT'') (CHR 0x0A) =
     (''HDA Intel PCH'', Some ''HDMI OUTPUT'') \<and>
   mentions_output_any_case ''HDMI OUTPUT'' \<and>
   refresh_devices (plain_world [uppercase_hint] Card_End) idle_backend =
     (Ok (), \<lparr>ready_devices_info = Some uppercase_inventory, have_devices_flag = True,
               cond_signals = 1\<rparr>) \<and>
   map purpose (input_devices uppercase_inventory) = [SoundIoDevicePurposeInput]"
  using uppercase_pass uppercase_mentions
  by (simp add: uppercase_hint_def uppercase_inventory_def probed_def)

text \<open>C3 as amended, on the detail text \<open>HDMI Output\<close>.\<close>

theorem output_detail_suppresses_capture_witness:
  "refresh_hint (plain_world [lowercase_hint] Card_End) lowercase_hint
     (new_pass (plain_world [lowercase_hint] Card_End)) = Ok lowercase_pass \<and>
   sublist ''Output'' ''HDMI Output'' \<and>
   input_devices (devices_info lowercase_pass) = []"
proof -
  have s: "sublist ''Output'' ''HDMI Output''"
    by (simp add: strstr_iff [symmetric] str_has_prefix_def)
  from output_detail_suppresses_capture [of lowercase_hint "''HDA Intel PCH''" "''HDMI Output''",
      OF _ _ disjI1 [OF s] lowercase_step]
  have "input_devices (devices_info lowercase_pass) =
    input_devices (devices_info (new_pass (plain_world [lowercase_hint] Card_End)))"
    by (simp add: lowercase_hint_def)
  then show ?thesis using s lowercase_step
    by (simp add: new_pass_def plain_world_def unset_devices_info_def)
qed

text \<open>
  C5 as stated fails: with the detail text \<open>Analog Output\<close> in the description of
  \<open>default:CARD\<close> the same three hints give one descriptor, and the default index of the
  input list is not set.
\<close>

theorem output_detail_scenario_has_one_descriptor:
  "map NAME output_detail_hints =
     [Some ''default:CARD'', Some ''null'', Some ''sysdefault:CARD''] \<and>
   map IOID output_detail_hints = [None, None, None] \<and>
   refresh_devices (plain_world output_detail_hints Card_End) idle_backend =
     (Ok (), \<lparr>ready_devices_info = Some output_detail_inventory, have_devices_flag = True,
               cond_signals = 1\<rparr>) \<and>
   length (output_devices output_detail_inventory) = 1 \<and>
   input_devices output_detail_inventory = [] \<and>
   default_input_index output_detail_inventory = - 1"
  using output_detail_pass
  by (simp add: output_detail_hints_def output_detail_inventory_def)

text \<open>C5 as amended, on the world with the three scenario hints and one card.\<close>

theorem default_marker_scenario_witness:
  "refresh_devices one_card_world idle_backend =
     (Ok (), \<lparr>ready_devices_info = Some one_card_inventory, have_devices_flag = True,
               cond_signals = 1\<rparr>) \<and>
   map NAME scenario_hints =
     [Some ''default:CARD'', Some ''null'', Some ''sysdefault:CARD''] \<and>
   (\<exists>info d_out d_in raw_out raw_in.
       Some one_card_inventory = Some info \<and>
       output_devices info = d_out # raw_out \<and> input_devices info = d_in # raw_in \<and>
       name d_out = ''default:CARD'' \<and> \<not> is_raw d_out \<and>
       purpose d_out = SoundIoDevicePurposeOutput \<and>
       name d_in = ''default:CARD'' \<and> \<not> is_raw d_in \<and>
       purpose d_in = SoundIoDevicePurposeInput \<and>
       list_all is_raw raw_out \<and> list_all is_raw raw_in \<and>
       default_output_index info = 0 \<and> default_input_index info = 0)"
proof -
  from default_marker_scenario [of one_card_world "scenario_hints ! 0" "scenario_hints ! 1"
      "scenario_hints ! 2" idle_backend
      "\<lparr>ready_devices_info = Some one_card_inventory, have_devices_flag = True,
        cond_signals = 1\<rparr>"]
    scenario_hints_shape one_card_pass
  have "\<exists>info d_out d_in raw_out raw_in.
       Some one_card_inventory = Some info \<and>
       output_devices info = d_out # raw_out \<and> input_devices info = d_in # raw_in \<and>
       name d_out = ''default:CARD'' \<and> \<not> is_raw d_out \<and>
       purpose d_out = SoundIoDevicePurposeOutput \<and>
       name d_in = ''default:CARD'' \<and> \<not> is_raw d_in \<and>
       purpose d_in = SoundIoDevicePurposeInput \<and>
       list_all is_raw raw_out \<and> list_all is_raw raw_in \<and>
       default_output_index info = 0 \<and> default_input_index info = 0"
    by simp
  then show ?thesis using one_card_pass by (simp add: scenario_hints_def)
qed

text \<open>
  C10 as stated fails: a hint named \<open>null\<close> is skipped before its IOID is read, so the
  value \<open>Duplex\<close> there does not stop the pass.
\<close>

theorem null_hint_with_invalid_ioid_completes:
  "NAME null_duplex_hint = Some ''null'' \<and> hint_is_excluded ''null'' \<and>
   DESC null_duplex_hint = Some ''Discard all samples'' \<and>
   IOID null_duplex_hint = Some ''Duplex'' \<and>
   fst (refresh_devices (plain_world [null_duplex_hint] Card_End) idle_backend) = Ok ()"
  using null_duplex_pass by (simp add: null_duplex_hint_def hint_is_excluded_def)

text \<open>C10 as amended: the same value on a hint that is not excluded.\<close>

theorem invalid_ioid_panics_witness:
  "refresh_hints duplex_world scenario_hints (new_pass duplex_world) = Ok scenario_head_pass \<and>
   DESC plug_duplex_hint = Some ''HDA Intel PCH'' \<and>
   IOID plug_duplex_hint = Some ''Duplex'' \<and>
   refresh_devices duplex_world idle_backend = (Panic ''invalid io hint value'', idle_backend)"
proof -
  have 1: "alloc_ok duplex_world 0"
    by (simp add: duplex_world_def plain_world_def)
  have 2: "snd_device_name_hint duplex_world = Some (scenario_hints @ plug_duplex_hint # [])"
    by (simp add: duplex_world_def plain_world_def)
  have 3: "NAME plug_duplex_hint = Some ''plughw:CARD=PCH,DEV=0''"
    "\<not> hint_is_excluded ''plughw:CARD=PCH,DEV=0''"
    "DESC plug_duplex_hint = Some ''HDA Intel PCH''"
    by (simp_all add: plug_duplex_hint_def hint_is_excluded_def str_has_prefix_def)
  have 4: "IOID plug_duplex_hint = Some ''Duplex''"
    by (simp add: plug_duplex_hint_def)
  from invalid_ioid_panics [OF 1 2 scenario_head_step 3 4, of idle_backend]
  show ?thesis using scenario_head_step 3(3) 4 by simp
qed

text \<open>C6 on records for \<open>pcmC0D0p\<close> (accepted) and \<open>controlC0\<close> (rejected).\<close>

theorem qualifying_change_filter_witness:
  "qualifying_change pcm_created \<and> \<not> qualifying_change control_created \<and>
   passes (snd (device_thread_turn one_card_world notify_ready
      (watcher_with [[control_created], [control_created]]))) = 0 \<and>
   backend (snd (device_thread_turn one_card_world notify_ready
      (watcher_with [[control_created], [control_created]]))) = idle_backend"
proof -
  have q: "qualifying_change pcm_created" "\<not> qualifying_change control_created"
    using example_events by (simp_all add: event_requests_rescan_iff)
  have "(\<forall>buf \<in> set (notify_fd (watcher_with [[control_created], [control_created]])).
      \<forall>e \<in> set buf. \<not> qualifying_change e) \<and> revents_pipe notify_ready AND POLLIN = 0"
    using q(2) by (simp add: watcher_with_def notify_ready_def POLLIN_def)
  with qualifying_change_filter [of pcm_created
      "watcher_with [[control_created], [control_created]]" notify_ready one_card_world]
  show ?thesis using q by (simp add: watcher_with_def)
qed

text \<open>
  C7 on two qualifying records pending in one buffer: one pass, which publishes the
  inventory of the one-card world.
\<close>

theorem one_pass_per_wake_witness:
  "event_requests_rescan pcm_created \<and> event_requests_rescan pcm_deleted \<and>
   passes (snd (device_thread_turn one_card_world notify_ready
      (watcher_with [[pcm_created, pcm_deleted]]))) = 1 \<and>
   backend (snd (device_thread_turn one_card_world notify_ready
      (watcher_with [[pcm_created, pcm_deleted]]))) =
     \<lparr>ready_devices_info = Some one_card_inventory, have_devices_flag = True,
      cond_signals = 1\<rparr> \<and>
   notify_fd (snd (device_thread_turn one_card_world notify_ready
      (watcher_with [[pcm_created, pcm_deleted]]))) = []"
proof -
  have "abort_flag (watcher_with [[pcm_created, pcm_deleted]]) \<and> 0 < poll_num notify_ready \<and>
    revents_notify notify_ready AND POLLIN \<noteq> 0 \<and>
    event_requests_rescan pcm_created \<and> event_requests_rescan pcm_deleted \<and>
    (notify_fd (watcher_with [[pcm_created, pcm_deleted]]) = [[pcm_created, pcm_deleted]] \<or>
     notify_fd (watcher_with [[pcm_created, pcm_deleted]]) = [[pcm_created], [pcm_deleted]])"
    using example_events by (simp add: watcher_with_def notify_ready_def POLLIN_def)
  with one_pass_per_wake [of one_card_world notify_ready
      "watcher_with [[pcm_created, pcm_deleted]]" pcm_created pcm_deleted]
  show ?thesis using example_events one_card_pass by (simp add: watcher_with_def)
qed

text \<open>C8 on a consumer that finds a published inventory.\<close>

theorem flush_events_twice_witness:
  "flush_events (consumer_with None (Some one_card_inventory) 0) =
     Some (consumer_with (Some one_card_inventory) None 1) \<and>
   flush_events (consumer_with (Some one_card_inventory) None 1) =
     Some (consumer_with (Some one_card_inventory) None 1) \<and>
   on_devices_change_calls (consumer_with (Some one_card_inventory) None 1) \<le>
     on_devices_change_calls (consumer_with None (Some one_card_inventory) 0) + 1"
proof -
  have 1: "flush_events (consumer_with None (Some one_card_inventory) 0) =
     Some (consumer_with (Some one_card_inventory) None 1)"
    by (simp add: flush_events_def consumer_with_def block_until_have_devices_flag)
  have 2: "flush_events (consumer_with (Some one_card_inventory) None 1) =
     Some (consumer_with (Some one_card_inventory) None 1)"
    by (simp add: flush_events_def consumer_with_def block_until_have_devices_flag)
  from flush_events_twice [of "consumer_with None (Some one_card_inventory) 0"
      "consumer_with (Some one_card_inventory) None 1"
      "consumer_with (Some one_card_inventory) None 1"] 1 2
  show ?thesis by simp
qed

end
